theory Spec2Isabelle
  imports Main "HOL-Library.Word"
begin

section \<open>The relay server (server/src/relay.ts)\<close>

subsection \<open>Data model\<close>

text \<open>
  The three interfaces of relay.ts become records. Several interfaces share field names
  (\<open>userId\<close>, \<open>desktopId\<close>, \<open>deviceName\<close>), so each record prefixes its fields:
  \<open>d_\<close> for \<open>ConnectedDevice\<close>, \<open>pe_\<close> for \<open>PairingEntry\<close>, \<open>pr_\<close> for
  \<open>PairedRelation\<close>, \<open>m_\<close> for an incoming client frame.
  A WebSocket object is identified by a number: two connections of the same device id
  are two different sockets.
\<close>

datatype DeviceType = Desktop | Mobile

datatype ReadyState = CONNECTING | OPEN | CLOSING | CLOSED

record ConnectedDevice =
  d_ws :: nat
  d_userId :: string
  d_deviceId :: string
  d_deviceType :: DeviceType
  d_deviceName :: string
  d_connectedAt :: int

record PairingEntry =
  pe_pairingCode :: string
  pe_desktopId :: string
  pe_desktopPublicKey :: string
  pe_deviceName :: string
  pe_userId :: string
  pe_createdAt :: int

record PairedRelation =
  pr_desktopId :: string
  pr_mobileId :: string
  pr_userId :: string
  pr_pairedAt :: int

text \<open>
  A parsed client frame (\<open>msg: any\<close> in the source). A field that is absent from the
  JSON object is \<open>None\<close>; the fields have the types the clients send.
\<close>

record message =
  m_type :: "string option"
  m_pairingCode :: "string option"
  m_publicKey :: "string option"
  m_deviceName :: "string option"
  m_targetDeviceId :: "string option"
  m_targetDesktopId :: "string option"
  m_to :: "string option"
  m_payload :: "string option"
  m_seq :: "int option"
  m_accepted :: "bool option"

datatype eventType = device_online | device_offline

text \<open>Frames the server sends; \<open>pairing-accepted\<close> has one shape for each side.\<close>

datatype frame =
    Pong
  | Error string
  | PairingAcceptedToDesktop string string string
  | PairingAcceptedToMobile string string string
  | PairingRevoked string
  | Relay string string "int option"
  | DeviceEvent eventType string
  | DeviceList "(string \<times> string \<times> bool) list"
  | ControlRequest string string
  | ControlAck string "bool option"
  | ControlRevoked string

text \<open>What the server does to a socket: send a frame on it, or close it.\<close>

datatype effect = Send nat frame | Close nat nat string

text \<open>What the server does to \<open>pendingPairings\<close>: \<open>set\<close>, \<open>delete\<close>, or the cleanup timer's pass.\<close>

datatype store_op = PairingSet string | PairingDeleted string | PairingsSwept

text \<open>
  The module-level state (\<open>devices\<close>, \<open>pendingPairings\<close>, \<open>pairedRelations\<close>), the ready
  state of every socket, the variables each connection's handlers captured when the
  connection was set up (\<open>closures\<close>), the next unused socket number, and the trace of
  effects on the sockets, oldest first. \<open>journal\<close> is the history of the operations on
  \<open>pendingPairings\<close>, oldest first, each with the number of socket effects that had been
  written when it ran: an operation stamped \<open>k\<close> ran before the effect at position \<open>k\<close> of
  \<open>wire\<close> and after the effects at the positions below \<open>k\<close>.
\<close>

record relay_state =
  devices :: "string \<rightharpoonup> ConnectedDevice"
  pendingPairings :: "string \<rightharpoonup> PairingEntry"
  pairedRelations :: "PairedRelation list"
  readyState :: "nat \<Rightarrow> ReadyState"
  closures :: "nat \<rightharpoonup> ConnectedDevice"
  next_ws :: nat
  wire :: "effect list"
  journal :: "(store_op \<times> nat) list"

definition PAIRING_TTL :: int where
  "PAIRING_TTL = 5 * 60 * 1000"

definition initial_state :: relay_state where
  "initial_state = \<lparr> devices = Map.empty, pendingPairings = Map.empty, pairedRelations = [],
     readyState = (\<lambda>_. CONNECTING), closures = Map.empty, next_ws = 0, wire = [],
     journal = [] \<rparr>"

subsection \<open>Helpers\<close>

text \<open>JavaScript truthiness of a string-valued field: absent and the empty string are falsy.\<close>

fun truthy :: "string option \<Rightarrow> bool" where
  "truthy None = False"
| "truthy (Some s) = (s \<noteq> [])"

text \<open>An operation on \<open>pendingPairings\<close> enters the journal with the current length of the trace.\<close>

definition journal_add :: "store_op \<Rightarrow> relay_state \<Rightarrow> relay_state" where
  "journal_add op s = s\<lparr> journal := journal s @ [(op, length (wire s))] \<rparr>"

text \<open>\<open>sendTo\<close>: the frame goes out only when the socket is open.\<close>

definition sendTo :: "nat \<Rightarrow> frame \<Rightarrow> relay_state \<Rightarrow> relay_state" where
  "sendTo w f s = (if readyState s w = OPEN then s\<lparr> wire := wire s @ [Send w f] \<rparr> else s)"

text \<open>
  \<open>ws.close(code, reason)\<close> of the ws library on an open socket starts the closing
  handshake; on a socket that is already closing or closed it does nothing. The call is
  wrapped in \<open>try/catch\<close>, so a socket that is still connecting is left alone as well.
\<close>

definition ws_close :: "nat \<Rightarrow> nat \<Rightarrow> string \<Rightarrow> relay_state \<Rightarrow> relay_state" where
  "ws_close w code reason s =
     (if readyState s w = OPEN
      then s\<lparr> readyState := (readyState s)(w := CLOSING), wire := wire s @ [Close w code reason] \<rparr>
      else s)"

text \<open>The loop of \<open>notifyPairedDevices\<close> over \<open>pairedRelations\<close>.\<close>

fun notify_loop :: "string \<Rightarrow> string \<Rightarrow> eventType \<Rightarrow> PairedRelation list \<Rightarrow> relay_state \<Rightarrow> relay_state" where
  "notify_loop deviceId userId ev [] s = s"
| "notify_loop deviceId userId ev (rel # rels) s =
     (if pr_userId rel \<noteq> userId then notify_loop deviceId userId ev rels s
      else
        let targetId = (if pr_desktopId rel = deviceId then Some (pr_mobileId rel)
                        else if pr_mobileId rel = deviceId then Some (pr_desktopId rel)
                        else None)
        in if truthy targetId
           then (case devices s (the targetId) of
                   Some target \<Rightarrow>
                     notify_loop deviceId userId ev rels (sendTo (d_ws target) (DeviceEvent ev deviceId) s)
                 | None \<Rightarrow> notify_loop deviceId userId ev rels s)
           else notify_loop deviceId userId ev rels s)"

definition notifyPairedDevices :: "string \<Rightarrow> string \<Rightarrow> eventType \<Rightarrow> relay_state \<Rightarrow> relay_state" where
  "notifyPairedDevices deviceId userId ev s = notify_loop deviceId userId ev (pairedRelations s) s"

text \<open>The loop of \<open>sendDesktopList\<close>: \<open>seen\<close> and \<open>desktops\<close> are its two accumulators.\<close>

fun desktop_list_loop :: "(string \<rightharpoonup> ConnectedDevice) \<Rightarrow> string \<Rightarrow> PairedRelation list \<Rightarrow>
    string list \<Rightarrow> (string \<times> string \<times> bool) list \<Rightarrow> (string \<times> string \<times> bool) list" where
  "desktop_list_loop devs userId [] seen desktops = desktops"
| "desktop_list_loop devs userId (rel # rels) seen desktops =
     (if pr_userId rel \<noteq> userId \<or> pr_desktopId rel \<in> set seen
      then desktop_list_loop devs userId rels seen desktops
      else desktop_list_loop devs userId rels (seen @ [pr_desktopId rel])
             (desktops @ [(pr_desktopId rel,
                (case devs (pr_desktopId rel) of
                   Some desktop \<Rightarrow> (if d_deviceName desktop = [] then ''Unknown'' else d_deviceName desktop)
                 | None \<Rightarrow> ''Unknown''),
                devs (pr_desktopId rel) \<noteq> None)]))"

definition sendDesktopList :: "nat \<Rightarrow> string \<Rightarrow> relay_state \<Rightarrow> relay_state" where
  "sendDesktopList w userId s =
     sendTo w (DeviceList (desktop_list_loop (devices s) userId (pairedRelations s) [] [])) s"

text \<open>\<open>findIndex\<close> followed by \<open>splice(idx, 1)\<close>: the first element that matches goes.\<close>

fun remove_first :: "('a \<Rightarrow> bool) \<Rightarrow> 'a list \<Rightarrow> 'a list" where
  "remove_first P [] = []"
| "remove_first P (x # xs) = (if P x then xs else x # remove_first P xs)"

subsection \<open>Pairing\<close>

definition handleRegisterPairing :: "int \<Rightarrow> ConnectedDevice \<Rightarrow> message \<Rightarrow> relay_state \<Rightarrow> relay_state" where
  "handleRegisterPairing now device msg s =
     (if d_deviceType device \<noteq> Desktop
      then sendTo (d_ws device) (Error ''Only desktop can register pairing'') s
      else if \<not> truthy (m_pairingCode msg) \<or> \<not> truthy (m_publicKey msg)
      then sendTo (d_ws device) (Error ''Missing pairingCode or publicKey'') s
      else
        let pairingCode = the (m_pairingCode msg); publicKey = the (m_publicKey msg)
        in journal_add (PairingSet pairingCode)
             (s\<lparr> pendingPairings := (pendingPairings s)(pairingCode \<mapsto>
                \<lparr> pe_pairingCode = pairingCode,
                  pe_desktopId = d_deviceId device,
                  pe_desktopPublicKey = publicKey,
                  pe_deviceName = (if truthy (m_deviceName msg) then the (m_deviceName msg)
                                   else d_deviceName device),
                  pe_userId = d_userId device,
                  pe_createdAt = now \<rparr>) \<rparr>))"

text \<open>
  \<open>handleClaimPairing\<close> after its checks, in the order of the source: first the two
  stores are updated (the relation replaces an older one of the same pair, the used code
  is deleted and the deletion enters the journal), then the two peers are notified.
\<close>

definition claim_commit :: "int \<Rightarrow> ConnectedDevice \<Rightarrow> PairingEntry \<Rightarrow> string \<Rightarrow> relay_state \<Rightarrow> relay_state" where
  "claim_commit now device entry pairingCode s =
     journal_add (PairingDeleted pairingCode)
       (s\<lparr> pairedRelations :=
            remove_first (\<lambda>r. pr_desktopId r = pe_desktopId entry \<and> pr_mobileId r = d_deviceId device)
              (pairedRelations s)
            @ [\<lparr> pr_desktopId = pe_desktopId entry, pr_mobileId = d_deviceId device,
                 pr_userId = d_userId device, pr_pairedAt = now \<rparr>],
          pendingPairings := (pendingPairings s)(pairingCode := None) \<rparr>)"

definition claim_notify :: "ConnectedDevice \<Rightarrow> PairingEntry \<Rightarrow> string \<Rightarrow> relay_state \<Rightarrow> relay_state" where
  "claim_notify device entry publicKey s =
     (let s1 = (case devices s (pe_desktopId entry) of
                  Some desktop \<Rightarrow>
                    sendTo (d_ws desktop)
                      (PairingAcceptedToDesktop publicKey (d_deviceId device) (d_deviceName device)) s
                | None \<Rightarrow> s)
      in sendTo (d_ws device)
           (PairingAcceptedToMobile (pe_desktopId entry) (pe_deviceName entry) (pe_desktopPublicKey entry)) s1)"

definition handleClaimPairing :: "int \<Rightarrow> ConnectedDevice \<Rightarrow> message \<Rightarrow> relay_state \<Rightarrow> relay_state" where
  "handleClaimPairing now device msg s =
     (if d_deviceType device \<noteq> Mobile
      then sendTo (d_ws device) (Error ''Only mobile can claim pairing'') s
      else if \<not> truthy (m_pairingCode msg) \<or> \<not> truthy (m_publicKey msg)
      then sendTo (d_ws device) (Error ''Missing pairingCode or publicKey'') s
      else
        let pairingCode = the (m_pairingCode msg); publicKey = the (m_publicKey msg)
        in case pendingPairings s pairingCode of
             None \<Rightarrow> sendTo (d_ws device) (Error ''Invalid or expired pairing code'') s
           | Some entry \<Rightarrow>
               if pe_userId entry \<noteq> d_userId device
               then sendTo (d_ws device) (Error ''Pairing code belongs to a different account'') s
               else if now - pe_createdAt entry > PAIRING_TTL
               then sendTo (d_ws device) (Error ''Pairing code expired'')
                      (journal_add (PairingDeleted pairingCode)
                         (s\<lparr> pendingPairings := (pendingPairings s)(pairingCode := None) \<rparr>))
               else claim_notify device entry publicKey (claim_commit now device entry pairingCode s))"

definition handleRevokePairing :: "ConnectedDevice \<Rightarrow> message \<Rightarrow> relay_state \<Rightarrow> relay_state" where
  "handleRevokePairing device msg s =
     (if \<not> truthy (m_targetDeviceId msg) then s
      else
        let targetDeviceId = the (m_targetDeviceId msg);
            matches = (\<lambda>r. (pr_desktopId r = d_deviceId device \<and> pr_mobileId r = targetDeviceId) \<or>
                            (pr_mobileId r = d_deviceId device \<and> pr_desktopId r = targetDeviceId))
        in if list_ex matches (pairedRelations s)
           then
             let s1 = s\<lparr> pairedRelations := remove_first matches (pairedRelations s) \<rparr>
             in (case devices s1 targetDeviceId of
                   Some target \<Rightarrow> sendTo (d_ws target) (PairingRevoked (d_deviceId device)) s1
                 | None \<Rightarrow> s1)
           else s)"

subsection \<open>Relay and remote control\<close>

definition handleRelay :: "ConnectedDevice \<Rightarrow> message \<Rightarrow> relay_state \<Rightarrow> relay_state" where
  "handleRelay device msg s =
     (if \<not> truthy (m_to msg) \<or> \<not> truthy (m_payload msg)
      then sendTo (d_ws device) (Error ''Missing relay target or payload'') s
      else
        let to = the (m_to msg); payload = the (m_payload msg);
            isPaired = list_ex (\<lambda>r. (pr_desktopId r = d_deviceId device \<and> pr_mobileId r = to) \<or>
                                      (pr_mobileId r = d_deviceId device \<and> pr_desktopId r = to))
                         (pairedRelations s)
        in if \<not> isPaired
           then sendTo (d_ws device) (Error ''Not paired with target device'') s
           else (case devices s to of
                   None \<Rightarrow> sendTo (d_ws device) (Error ''Target device is offline'') s
                 | Some target \<Rightarrow>
                     sendTo (d_ws target) (Relay (d_deviceId device) payload (m_seq msg)) s))"

definition handleControlRequest :: "ConnectedDevice \<Rightarrow> message \<Rightarrow> relay_state \<Rightarrow> relay_state" where
  "handleControlRequest device msg s =
     (if d_deviceType device \<noteq> Mobile
      then sendTo (d_ws device) (Error ''Only mobile can request control'') s
      else if \<not> truthy (m_targetDesktopId msg) then s
      else
        let targetDesktopId = the (m_targetDesktopId msg);
            isPaired = list_ex (\<lambda>r. pr_desktopId r = targetDesktopId \<and> pr_mobileId r = d_deviceId device)
                         (pairedRelations s)
        in if \<not> isPaired
           then sendTo (d_ws device) (Error ''Not paired with target desktop'') s
           else (case devices s targetDesktopId of
                   None \<Rightarrow> sendTo (d_ws device) (Error ''Desktop is offline'') s
                 | Some desktop \<Rightarrow>
                     sendTo (d_ws desktop) (ControlRequest (d_deviceId device) (d_deviceName device)) s))"

definition handleControlAck :: "ConnectedDevice \<Rightarrow> message \<Rightarrow> relay_state \<Rightarrow> relay_state" where
  "handleControlAck device msg s =
     (if \<not> truthy (m_to msg) then s
      else (case devices s (the (m_to msg)) of
              Some target \<Rightarrow> sendTo (d_ws target) (ControlAck (d_deviceId device) (m_accepted msg)) s
            | None \<Rightarrow> s))"

definition handleControlRevoked :: "ConnectedDevice \<Rightarrow> message \<Rightarrow> relay_state \<Rightarrow> relay_state" where
  "handleControlRevoked device msg s =
     (if \<not> truthy (m_to msg) then s
      else (case devices s (the (m_to msg)) of
              Some target \<Rightarrow> sendTo (d_ws target) (ControlRevoked (d_deviceId device)) s
            | None \<Rightarrow> s))"

subsection \<open>Dispatch\<close>

definition handleMessage :: "int \<Rightarrow> ConnectedDevice \<Rightarrow> message \<Rightarrow> relay_state \<Rightarrow> relay_state" where
  "handleMessage now device msg s =
     (if m_type msg = Some ''heartbeat'' then sendTo (d_ws device) Pong s
      else if m_type msg = Some ''register-pairing'' then handleRegisterPairing now device msg s
      else if m_type msg = Some ''claim-pairing'' then handleClaimPairing now device msg s
      else if m_type msg = Some ''relay'' then handleRelay device msg s
      else if m_type msg = Some ''revoke-pairing'' then handleRevokePairing device msg s
      else if m_type msg = Some ''control-request'' then handleControlRequest device msg s
      else if m_type msg = Some ''control-ack'' then handleControlAck device msg s
      else if m_type msg = Some ''control-revoked'' then handleControlRevoked device msg s
      else sendTo (d_ws device)
             (Error (''Unknown message type: '' @ (case m_type msg of Some t \<Rightarrow> t | None \<Rightarrow> ''undefined''))) s)"

subsection \<open>Connections\<close>

text \<open>
  The \<open>connection\<close> handler. The new socket gets the next unused number and is open when
  the handler runs. \<open>closures\<close> keeps the \<open>device\<close> object and the \<open>deviceId\<close>,
  \<open>userId\<close> that the \<open>message\<close> and \<open>close\<close> handlers of this socket captured.
\<close>

definition on_connection :: "int \<Rightarrow> string \<Rightarrow> string \<Rightarrow> DeviceType \<Rightarrow> string \<Rightarrow> relay_state \<Rightarrow> relay_state" where
  "on_connection now userId deviceId deviceType deviceName s0 =
     (let w = next_ws s0;
          s = s0\<lparr> next_ws := Suc w, readyState := (readyState s0)(w := OPEN) \<rparr>;
          s1 = (case devices s deviceId of
                  Some existing \<Rightarrow> ws_close (d_ws existing) 1000 ''Replaced by new connection'' s
                | None \<Rightarrow> s);
          device = \<lparr> d_ws = w, d_userId = userId, d_deviceId = deviceId, d_deviceType = deviceType,
                     d_deviceName = deviceName, d_connectedAt = now \<rparr>;
          s2 = s1\<lparr> devices := (devices s1)(deviceId \<mapsto> device),
                   closures := (closures s1)(w \<mapsto> device) \<rparr>;
          s3 = notifyPairedDevices deviceId userId device_online s2
      in if deviceType = Mobile then sendDesktopList w userId s3 else s3)"

text \<open>
  The \<open>message\<close> handler of socket \<open>w\<close>; \<open>None\<close> is data that \<open>JSON.parse\<close> rejects, or
  the JSON value \<open>null\<close>, on which reading \<open>msg.type\<close> throws: both end in the \<open>catch\<close>
  branch. A socket that has closed delivers no message.
\<close>

definition on_message :: "int \<Rightarrow> nat \<Rightarrow> message option \<Rightarrow> relay_state \<Rightarrow> relay_state" where
  "on_message now w data s =
     (case closures s w of
        None \<Rightarrow> s
      | Some device \<Rightarrow>
          if readyState s w = CLOSED then s
          else
            (case data of
               None \<Rightarrow> sendTo w (Error ''Invalid message format'') s
             | Some msg \<Rightarrow> handleMessage now device msg s))"

text \<open>
  The \<open>close\<close> handler of socket \<open>w\<close>. The event fires once per socket, when the socket
  has reached the closed state, whoever started the closing.
\<close>

definition on_close :: "nat \<Rightarrow> relay_state \<Rightarrow> relay_state" where
  "on_close w s0 =
     (case closures s0 w of
        None \<Rightarrow> s0
      | Some device \<Rightarrow>
          if readyState s0 w = CLOSED then s0
          else
            let s = s0\<lparr> readyState := (readyState s0)(w := CLOSED) \<rparr>;
                s1 = s\<lparr> devices := (devices s)(d_deviceId device := None) \<rparr>
            in notifyPairedDevices (d_deviceId device) (d_userId device) device_offline s1)"

text \<open>The cleanup timer: entries older than the TTL are deleted.\<close>

definition sweep :: "int \<Rightarrow> relay_state \<Rightarrow> relay_state" where
  "sweep now s =
     journal_add PairingsSwept
       (s\<lparr> pendingPairings := (\<lambda>code. case pendingPairings s code of
             None \<Rightarrow> None
           | Some entry \<Rightarrow> if now - pe_createdAt entry > PAIRING_TTL then None else Some entry) \<rparr>)"

text \<open>What can happen to the server, and a run of the server over a list of timed events.\<close>

datatype event =
    Connect string string DeviceType string
  | Message nat "message option"
  | CloseEvent nat
  | Sweep

fun step :: "relay_state \<Rightarrow> int \<times> event \<Rightarrow> relay_state" where
  "step s (now, Connect userId deviceId deviceType deviceName) =
     on_connection now userId deviceId deviceType deviceName s"
| "step s (now, Message w data) = on_message now w data s"
| "step s (now, CloseEvent w) = on_close w s"
| "step s (now, Sweep) = sweep now s"

definition run :: "(int \<times> event) list \<Rightarrow> relay_state" where
  "run evs = foldl step initial_state evs"

text \<open>A frame with only its type set, to build client frames from.\<close>

definition blank :: "string \<Rightarrow> message" where
  "blank t = \<lparr> m_type = Some t, m_pairingCode = None, m_publicKey = None, m_deviceName = None,
     m_targetDeviceId = None, m_targetDesktopId = None, m_to = None, m_payload = None,
     m_seq = None, m_accepted = None \<rparr>"

section \<open>The remote-control state machine (src/main/remote-control.ts)\<close>














section \<open>End-to-end encryption (desktop e2ee module, mobile e2ee module)\<close>

type_synonym byte = "8 word"
type_synonym bytes = "byte list"

subsection \<open>The platform's cryptography, as parameters\<close>

text \<open>
  AES-256-GCM, base64 and UTF-8 come from the platform (Node's \<open>crypto\<close> and \<open>Buffer\<close> on
  the desktop, @noble/ciphers, \<open>btoa\<close>/\<open>atob\<close> and \<open>TextEncoder\<close> on the mobile). They are
  parameters of the model:
  \<^item> \<open>gcm_seal key iv plaintext\<close> is the ciphertext and the authentication tag;
  \<open>gcm_open key iv ciphertext tag\<close> is the plaintext, or \<open>None\<close> when the library throws
  (the tag does not verify, or a length is refused);
  \<^item> \<open>b64_encode\<close> is base64; \<open>b64_decode\<close> is Node's lenient \<open>Buffer.from(s, 'base64')\<close>,
  which never throws; \<open>atob\<close> throws on text that is not base64 (\<open>None\<close>);
  \<^item> \<open>utf8_encode\<close>, \<open>utf8_decode\<close> are the UTF-8 codec;
  \<^item> \<open>hmac_sha256 key data\<close> is HMAC-SHA256;
  \<^item> \<open>Buffer_from_hex\<close> is Node's \<open>Buffer.from(s, 'hex')\<close>, and \<open>parseInt16 s\<close> is
  \<open>parseInt(s, 16)\<close>, with \<open>None\<close> for \<open>NaN\<close>.
\<close>

record platform =
  gcm_seal :: "bytes \<Rightarrow> bytes \<Rightarrow> bytes \<Rightarrow> bytes \<times> bytes"
  gcm_open :: "bytes \<Rightarrow> bytes \<Rightarrow> bytes \<Rightarrow> bytes \<Rightarrow> bytes option"
  b64_encode :: "bytes \<Rightarrow> string"
  b64_decode :: "string \<Rightarrow> bytes"
  atob :: "string \<Rightarrow> bytes option"
  utf8_encode :: "string \<Rightarrow> bytes"
  utf8_decode :: "bytes \<Rightarrow> string"
  hmac_sha256 :: "bytes \<Rightarrow> bytes \<Rightarrow> bytes"
  Buffer_from_hex :: "string \<Rightarrow> bytes"
  parseInt16 :: "string \<Rightarrow> int option"

definition IV_LENGTH :: nat where "IV_LENGTH = 12"
definition TAG_LENGTH :: nat where "TAG_LENGTH = 16"

text \<open>
  The mobile's session has three fields; the desktop's has \<open>sharedSecret\<close> in addition.
\<close>

record E2EESession =
  derivedKey :: bytes
  seq :: int
  peerSeq :: int

record DesktopSession = E2EESession +
  sharedSecret :: bytes

datatype crypto_error = ReplayRejected int int | AuthFailed | InvalidInput

text \<open>
  \<open>subarray(start, end)\<close> of a Buffer and \<open>slice(start, end)\<close> of a Uint8Array: a negative
  index counts from the end, and both indices are clamped to the array.
\<close>

definition js_index :: "int \<Rightarrow> nat \<Rightarrow> nat" where
  "js_index i n = (if i < 0 then nat (max (int n + i) 0) else min (nat i) n)"

definition subarray :: "'a list \<Rightarrow> int \<Rightarrow> int \<Rightarrow> 'a list" where
  "subarray xs start end = (let a = js_index start (length xs); b = js_index end (length xs)
                            in take (b - a) (drop a xs))"

text \<open>
  \<open>seq\<close> and \<open>peerSeq\<close> are JavaScript numbers, that is doubles; the model has the integers
  among them (a fraction, \<open>NaN\<close> or an infinity read back from a damaged store is outside
  it). \<open>x++\<close> stores \<open>x + 1\<close> rounded to the nearest double, ties to the even mantissa.
  From \<open>-2^53\<close> up to \<open>2^53 - 1\<close> the sum is exact. From \<open>2^53\<close> on, doubles are 2 apart up
  to \<open>2^54\<close> and further apart beyond: there the sum is a tie between \<open>x\<close> and \<open>x + 2\<close>, or
  nearest to \<open>x\<close>, so the counter stays where it is or moves by 2.
\<close>

definition js_increment :: "int \<Rightarrow> int" where
  "js_increment x =
     (if - (2 ^ 53) \<le> x \<and> x < 2 ^ 53 then x + 1
      else if \<bar>x\<bar> < 2 ^ 54 \<and> x mod 4 = 2 then x + 2
      else x)"

subsection \<open>Desktop: encrypt and decrypt\<close>

text \<open>\<open>iv\<close> is what \<open>crypto.randomBytes(IV_LENGTH)\<close> returned.\<close>

definition encrypt :: "platform \<Rightarrow> bytes \<Rightarrow> 'a E2EESession_scheme \<Rightarrow> string \<Rightarrow>
    (string \<times> int) \<times> 'a E2EESession_scheme" where
  "encrypt P iv session plaintext =
     (let (encrypted, authTag) = gcm_seal P (derivedKey session) iv (utf8_encode P plaintext);
          combined = iv @ encrypted @ authTag;
          n = seq session
      in ((b64_encode P combined, n), session\<lparr> seq := js_increment (seq session) \<rparr>))"

text \<open>
  \<open>decrypt\<close> returns the plaintext or the error thrown, together with the session after
  the call: the assignment to \<open>peerSeq\<close> comes right after the replay check.
\<close>

definition decrypt :: "platform \<Rightarrow> 'a E2EESession_scheme \<Rightarrow> string \<Rightarrow> int \<Rightarrow>
    (crypto_error + string) \<times> 'a E2EESession_scheme" where
  "decrypt P session payload n =
     (if n \<le> peerSeq session then (Inl (ReplayRejected n (peerSeq session)), session)
      else
        let session1 = session\<lparr> peerSeq := n \<rparr>;
            combined = b64_decode P payload;
            iv = subarray combined 0 (int IV_LENGTH);
            authTag = subarray combined (int (length combined) - int TAG_LENGTH) (int (length combined));
            ciphertext = subarray combined (int IV_LENGTH) (int (length combined) - int TAG_LENGTH)
        in case gcm_open P (derivedKey session1) iv ciphertext authTag of
             None \<Rightarrow> (Inl AuthFailed, session1)
           | Some decrypted \<Rightarrow> (Inr (utf8_decode P decrypted), session1))"

subsection \<open>Mobile: encrypt and decrypt\<close>

text \<open>
  @noble/ciphers: \<open>gcm(key, iv).encrypt\<close> returns the ciphertext with the 16-byte tag
  appended, and \<open>decrypt\<close> takes that form and throws when it is shorter than a tag or the
  tag does not verify.
\<close>

definition noble_gcm_encrypt :: "platform \<Rightarrow> bytes \<Rightarrow> bytes \<Rightarrow> bytes \<Rightarrow> bytes" where
  "noble_gcm_encrypt P key iv data = (let (c, t) = gcm_seal P key iv data in c @ t)"

definition noble_gcm_decrypt :: "platform \<Rightarrow> bytes \<Rightarrow> bytes \<Rightarrow> bytes \<Rightarrow> bytes option" where
  "noble_gcm_decrypt P key iv data =
     (if length data < 16 then None
      else gcm_open P key iv (take (length data - 16) data) (drop (length data - 16) data))"

text \<open>\<open>uint8ToBase64\<close> builds the binary string of the bytes and calls \<open>btoa\<close>.\<close>

definition uint8ToBase64 :: "platform \<Rightarrow> bytes \<Rightarrow> string" where
  "uint8ToBase64 P bs = b64_encode P bs"

definition base64ToUint8 :: "platform \<Rightarrow> string \<Rightarrow> bytes option" where
  "base64ToUint8 P s = atob P s"

definition mobile_encrypt :: "platform \<Rightarrow> bytes \<Rightarrow> 'a E2EESession_scheme \<Rightarrow> string \<Rightarrow>
    (string \<times> int) \<times> 'a E2EESession_scheme" where
  "mobile_encrypt P iv session plaintext =
     (let encoded = utf8_encode P plaintext;
          ciphertext = noble_gcm_encrypt P (derivedKey session) iv encoded;
          combined = iv @ ciphertext;
          n = seq session
      in ((uint8ToBase64 P combined, n), session\<lparr> seq := js_increment (seq session) \<rparr>))"

definition mobile_decrypt :: "platform \<Rightarrow> 'a E2EESession_scheme \<Rightarrow> string \<Rightarrow> int \<Rightarrow>
    (crypto_error + string) \<times> 'a E2EESession_scheme" where
  "mobile_decrypt P session payload n =
     (if n \<le> peerSeq session then (Inl (ReplayRejected n (peerSeq session)), session)
      else
        let session1 = session\<lparr> peerSeq := n \<rparr>
        in case base64ToUint8 P payload of
             None \<Rightarrow> (Inl InvalidInput, session1)
           | Some combined \<Rightarrow>
               let iv = subarray combined 0 12;
                   ciphertextWithTag = subarray combined 12 (int (length combined))
               in (case noble_gcm_decrypt P (derivedKey session1) iv ciphertextWithTag of
                     None \<Rightarrow> (Inl AuthFailed, session1)
                   | Some decrypted \<Rightarrow> (Inr (utf8_decode P decrypted), session1)))"

text \<open>
  A sender's run: \<open>encrypt\<close> called once for each message of a list, each with its IV, on
  the session the call before left. The result is the frames with their sequence numbers,
  in order, and the session at the end.
\<close>

fun encrypt_all :: "platform \<Rightarrow> (bytes \<times> string) list \<Rightarrow> 'a E2EESession_scheme \<Rightarrow>
    (string \<times> int) list \<times> 'a E2EESession_scheme" where
  "encrypt_all P [] session = ([], session)"
| "encrypt_all P ((iv, plaintext) # rest) session =
     (let (frame, session1) = encrypt P iv session plaintext;
          (frames, session2) = encrypt_all P rest session1
      in (frame # frames, session2))"

subsection \<open>Hex helpers of the mobile module\<close>

definition hex_digit :: "nat \<Rightarrow> char" where
  "hex_digit n = ''0123456789abcdef'' ! n"

text \<open>\<open>b.toString(16).padStart(2, '0')\<close> for a byte \<open>b\<close>.\<close>

definition byte_toString16 :: "byte \<Rightarrow> string" where
  "byte_toString16 b = (if unat b < 16 then [hex_digit (unat b)]
                        else [hex_digit (unat b div 16), hex_digit (unat b mod 16)])"

definition padStart2 :: "string \<Rightarrow> string" where
  "padStart2 s = replicate (2 - length s) (CHR ''0'') @ s"

definition bytesToHex :: "bytes \<Rightarrow> string" where
  "bytesToHex bs = concat (map (\<lambda>b. padStart2 (byte_toString16 b)) bs)"

text \<open>Storing a number into a \<open>Uint8Array\<close>: \<open>NaN\<close> becomes 0, an integer is taken modulo 256.\<close>

fun to_uint8 :: "int option \<Rightarrow> byte" where
  "to_uint8 None = 0"
| "to_uint8 (Some i) = word_of_int i"

text \<open>
  The loop of \<open>hexToBytes\<close>, two characters at a time. The array is allocated with
  \<open>hex.length / 2\<close> elements, which for a string of odd length is cut to the integer below;
  the write for the last, single character then falls outside the array and is ignored.
\<close>

fun hex_pairs :: "platform \<Rightarrow> string \<Rightarrow> bytes" where
  "hex_pairs P (a # b # rest) = to_uint8 (parseInt16 P [a, b]) # hex_pairs P rest"
| "hex_pairs P _ = []"

definition hexToBytes :: "platform \<Rightarrow> string \<Rightarrow> bytes" where
  "hexToBytes P hex = hex_pairs P hex"

subsection \<open>The curve, as a parameter\<close>

text \<open>
  P-256 is a parameter as well: scalar multiplication, the base point, the 32-byte
  coordinates of a point, the parity of its Y coordinate, and the parser of an encoded
  point (\<open>None\<close>: not a point of the curve, the library throws). A private key is a scalar.
  Both libraries serialise points in the standard way; Node's \<open>computeSecret\<close> returns the
  X coordinate of the shared point, @noble/curves' \<open>getSharedSecret\<close> returns the shared
  point in compressed form (one prefix byte, then X).
\<close>

record 'pt curve =
  smul :: "nat \<Rightarrow> 'pt \<Rightarrow> 'pt"
  base :: "'pt"
  x_bytes :: "'pt \<Rightarrow> bytes"
  y_bytes :: "'pt \<Rightarrow> bytes"
  y_odd :: "'pt \<Rightarrow> bool"
  point_of :: "bytes \<Rightarrow> 'pt option"

definition uncompressed :: "'pt curve \<Rightarrow> 'pt \<Rightarrow> bytes" where
  "uncompressed C Q = 0x04 # x_bytes C Q @ y_bytes C Q"

definition compressed :: "'pt curve \<Rightarrow> 'pt \<Rightarrow> bytes" where
  "compressed C Q = (if y_odd C Q then 0x03 else 0x02) # x_bytes C Q"

definition node_getPublicKey_hex :: "'pt curve \<Rightarrow> nat \<Rightarrow> string" where
  "node_getPublicKey_hex C d = bytesToHex (uncompressed C (smul C d (base C)))"

definition node_computeSecret :: "'pt curve \<Rightarrow> nat \<Rightarrow> bytes \<Rightarrow> bytes option" where
  "node_computeSecret C d peer = map_option (\<lambda>Q. x_bytes C (smul C d Q)) (point_of C peer)"

definition noble_getPublicKey :: "'pt curve \<Rightarrow> nat \<Rightarrow> bytes" where
  "noble_getPublicKey C d = uncompressed C (smul C d (base C))"

definition noble_getSharedSecret :: "'pt curve \<Rightarrow> nat \<Rightarrow> bytes \<Rightarrow> bytes option" where
  "noble_getSharedSecret C d peer = map_option (\<lambda>Q. compressed C (smul C d Q)) (point_of C peer)"

subsection \<open>Desktop: HKDF and deriveSession\<close>

text \<open>\<open>src.copy(target, targetStart)\<close>: as many bytes as fit are written over the target.\<close>

definition buf_copy :: "bytes \<Rightarrow> bytes \<Rightarrow> nat \<Rightarrow> bytes" where
  "buf_copy src target targetStart =
     (let k = min (length src) (length target - targetStart)
      in take targetStart target @ take k src @ drop (targetStart + k) target)"

text \<open>The expand loop of \<open>hkdfSha256\<close> over \<open>i = 0, ..., n - 1\<close>, on the pair \<open>(prev, okm)\<close>.\<close>

fun hkdf_loop :: "platform \<Rightarrow> bytes \<Rightarrow> bytes \<Rightarrow> nat list \<Rightarrow> bytes \<times> bytes \<Rightarrow> bytes \<times> bytes" where
  "hkdf_loop P prk info [] (prev, okm) = (prev, okm)"
| "hkdf_loop P prk info (i # is) (prev, okm) =
     (let input = prev @ info @ [of_nat (i + 1)];
          prev' = hmac_sha256 P prk input
      in hkdf_loop P prk info is (prev', buf_copy prev' okm (i * 32)))"

definition hkdfSha256 :: "platform \<Rightarrow> bytes \<Rightarrow> bytes \<Rightarrow> bytes \<Rightarrow> nat \<Rightarrow> bytes" where
  "hkdfSha256 P ikm salt info len =
     (let prk = hmac_sha256 P salt ikm;
          n = (len + 31) div 32;
          okm = snd (hkdf_loop P prk info [0..<n] ([], replicate (n * 32) 0))
      in subarray okm 0 (int len))"

text \<open>
  The desktop's key pair is the \<open>ECDH\<close> object, that is its private scalar, with the hex of
  the public point. \<open>deriveSession\<close> is \<open>None\<close> when \<open>computeSecret\<close> throws.
\<close>

definition generateKeyPair :: "'pt curve \<Rightarrow> nat \<Rightarrow> string \<times> nat" where
  "generateKeyPair C d = (node_getPublicKey_hex C d, d)"

definition deriveSession :: "platform \<Rightarrow> 'pt curve \<Rightarrow> nat \<Rightarrow> string \<Rightarrow> string \<Rightarrow> DesktopSession option" where
  "deriveSession P C ecdh peerPublicKeyHex pairingCode =
     (case node_computeSecret C ecdh (Buffer_from_hex P peerPublicKeyHex) of
        None \<Rightarrow> None
      | Some secret \<Rightarrow>
          let salt = utf8_encode P pairingCode;
              info = utf8_encode P ''claude-studio-e2ee'';
              key = hkdfSha256 P secret salt info 32
          in Some \<lparr> derivedKey = key, seq = 0, peerSeq = -1, sharedSecret = secret \<rparr>)"

subsection \<open>Mobile: HKDF of @noble/hashes and deriveSession\<close>

text \<open>
  \<open>hkdf(sha256, ikm, salt, info, length)\<close> of @noble/hashes is HKDF of RFC 5869:
  \<open>PRK = HMAC(salt, IKM)\<close>, \<open>T(0)\<close> empty, \<open>T(i) = HMAC(PRK, T(i-1) | info | i)\<close>, and the
  output is the first \<open>length\<close> bytes of \<open>T(1) | T(2) | ...\<close>.
\<close>

fun hkdf_T :: "platform \<Rightarrow> bytes \<Rightarrow> bytes \<Rightarrow> nat \<Rightarrow> bytes" where
  "hkdf_T P prk info 0 = []"
| "hkdf_T P prk info (Suc i) = hmac_sha256 P prk (hkdf_T P prk info i @ info @ [of_nat (Suc i)])"

definition noble_hkdf :: "platform \<Rightarrow> bytes \<Rightarrow> bytes \<Rightarrow> bytes \<Rightarrow> nat \<Rightarrow> bytes" where
  "noble_hkdf P ikm salt info len =
     (let prk = hmac_sha256 P salt ikm
      in take len (concat (map (hkdf_T P prk info) [1..<Suc ((len + 31) div 32)])))"

definition mobile_generateKeyPair :: "'pt curve \<Rightarrow> nat \<Rightarrow> string \<times> nat" where
  "mobile_generateKeyPair C privateKey = (bytesToHex (noble_getPublicKey C privateKey), privateKey)"

definition mobile_deriveSession :: "platform \<Rightarrow> 'pt curve \<Rightarrow> nat \<Rightarrow> string \<Rightarrow> string \<Rightarrow> E2EESession option" where
  "mobile_deriveSession P C privateKey peerPublicKeyHex pairingCode =
     (let peerPublicKey = hexToBytes P peerPublicKeyHex
      in case noble_getSharedSecret C privateKey peerPublicKey of
           None \<Rightarrow> None
         | Some secret \<Rightarrow>
             let sharedX = subarray secret 1 33;
                 salt = utf8_encode P pairingCode;
                 info = utf8_encode P ''claude-studio-e2ee'';
                 key = noble_hkdf P sharedX salt info 32
             in Some \<lparr> derivedKey = key, seq = 0, peerSeq = -1 \<rparr>)"

section \<open>Concrete runs and inputs\<close>

subsection \<open>Client frames and runs of the server\<close>

definition register_msg :: "string \<Rightarrow> string \<Rightarrow> message" where
  "register_msg code pk = (blank ''register-pairing'')\<lparr> m_pairingCode := Some code, m_publicKey := Some pk \<rparr>"

definition claim_msg :: "string \<Rightarrow> string \<Rightarrow> message" where
  "claim_msg code pk = (blank ''claim-pairing'')\<lparr> m_pairingCode := Some code, m_publicKey := Some pk \<rparr>"

definition relay_msg :: "string \<Rightarrow> string \<Rightarrow> int \<Rightarrow> message" where
  "relay_msg t p n = (blank ''relay'')\<lparr> m_to := Some t, m_payload := Some p, m_seq := Some n \<rparr>"

text \<open>
  Desktop D of user U1 connects (socket 0) and registers code C; mobile M of U1 connects
  (socket 1) and claims C.
\<close>

definition paired_run :: "(int \<times> event) list" where
  "paired_run =
     [(0, Connect ''U1'' ''D'' Desktop ''Desk''),
      (1, Message 0 (Some (register_msg ''C'' ''KD''))),
      (2, Connect ''U1'' ''M'' Mobile ''Phone''),
      (3, Message 1 (Some (claim_msg ''C'' ''KM'')))]"

text \<open>
  Then a connection of another user, U2, is admitted with the device id D (socket 2) and
  sends a relay frame to M.
\<close>

definition cross_account_run :: "(int \<times> event) list" where
  "cross_account_run = paired_run @
     [(4, Connect ''U2'' ''D'' Desktop ''Other''),
      (5, Message 2 (Some (relay_msg ''M'' ''X'' 0)))]"

text \<open>
  Or: D connects a second time (socket 2), and then the close event of its first socket
  fires.
\<close>

definition reconnect_run :: "(int \<times> event) list" where
  "reconnect_run = paired_run @ [(4, Connect ''U1'' ''D'' Desktop ''Desk'')]"

definition displacement_run :: "(int \<times> event) list" where
  "displacement_run = reconnect_run @ [(5, CloseEvent 0)]"

text \<open>
  Two accounts on one server: desktop D1 of U1 registers code C3 (socket 0); mobile M2 of U2
  (socket 1) and mobile M1 of U1 (socket 2) are connected.
\<close>

definition two_accounts_run :: "(int \<times> event) list" where
  "two_accounts_run =
     [(0, Connect ''U1'' ''D1'' Desktop ''Desk''),
      (1, Message 0 (Some (register_msg ''C3'' ''KD''))),
      (2, Connect ''U2'' ''M2'' Mobile ''Phone2''),
      (3, Connect ''U1'' ''M1'' Mobile ''Phone1'')]"

definition dev_D1 :: ConnectedDevice where
  "dev_D1 = \<lparr> d_ws = 0, d_userId = ''U1'', d_deviceId = ''D1'', d_deviceType = Desktop,
               d_deviceName = ''Desk'', d_connectedAt = 0 \<rparr>"

definition dev_M2 :: ConnectedDevice where
  "dev_M2 = \<lparr> d_ws = 1, d_userId = ''U2'', d_deviceId = ''M2'', d_deviceType = Mobile,
               d_deviceName = ''Phone2'', d_connectedAt = 2 \<rparr>"

definition dev_M1 :: ConnectedDevice where
  "dev_M1 = \<lparr> d_ws = 2, d_userId = ''U1'', d_deviceId = ''M1'', d_deviceType = Mobile,
               d_deviceName = ''Phone1'', d_connectedAt = 3 \<rparr>"

definition entry_C3 :: PairingEntry where
  "entry_C3 = \<lparr> pe_pairingCode = ''C3'', pe_desktopId = ''D1'', pe_desktopPublicKey = ''KD'',
                 pe_deviceName = ''Desk'', pe_userId = ''U1'', pe_createdAt = 1 \<rparr>"





definition dev_D :: ConnectedDevice where
  "dev_D = \<lparr> d_ws = 0, d_userId = ''U1'', d_deviceId = ''D'', d_deviceType = Desktop,
              d_deviceName = ''Desk'', d_connectedAt = 0 \<rparr>"

definition dev_M :: ConnectedDevice where
  "dev_M = \<lparr> d_ws = 1, d_userId = ''U1'', d_deviceId = ''M'', d_deviceType = Mobile,
              d_deviceName = ''Phone'', d_connectedAt = 2 \<rparr>"

subsection \<open>A run of the remote-control state machine\<close>



subsection \<open>A small instance of the platform and of the curve\<close>

text \<open>
  The theorems about encryption and key derivation hold for every platform and curve with
  the stated properties. To apply them to concrete inputs, here is one small instance: a
  cipher that shifts every byte and uses the first 16 key bytes as the tag, bytes and
  characters identified by their code, a hash that is the byte sum of its input followed by the input, padded or cut to 32 bytes, a
  real hex decoder, and the group of bytes under addition as the curve.
\<close>

definition hex_val :: "char \<Rightarrow> nat" where
  "hex_val c = length (takeWhile (\<lambda>x. x \<noteq> c) ''0123456789abcdef'')"

fun demo_hex_decode :: "string \<Rightarrow> bytes" where
  "demo_hex_decode (a # b # rest) = of_nat (16 * hex_val a + hex_val b) # demo_hex_decode rest"
| "demo_hex_decode _ = []"

definition demo_parseInt16 :: "string \<Rightarrow> int option" where
  "demo_parseInt16 s = (case s of [a, b] \<Rightarrow>
       (if hex_val a < 16 \<and> hex_val b < 16 then Some (int (16 * hex_val a + hex_val b)) else None)
     | _ \<Rightarrow> None)"

definition demo_platform :: platform where
  "demo_platform =
     \<lparr> gcm_seal = (\<lambda>k iv m. (map (\<lambda>b. b + 1) m, take 16 (k @ replicate 16 0))),
       gcm_open = (\<lambda>k iv c t. if t = take 16 (k @ replicate 16 0) then Some (map (\<lambda>b. b - 1) c) else None),
       b64_encode = map (\<lambda>b. char_of (unat b)),
       b64_decode = map (\<lambda>c. of_nat (of_char c)),
       atob = (\<lambda>s. Some (map (\<lambda>c. of_nat (of_char c)) s)),
       utf8_encode = map (\<lambda>c. of_nat (of_char c)),
       utf8_decode = map (\<lambda>b. char_of (unat b)),
       hmac_sha256 = (\<lambda>k m. take 32 (foldr (+) (k @ m) 0 # k @ m @ replicate 32 0)),
       Buffer_from_hex = demo_hex_decode,
       parseInt16 = demo_parseInt16 \<rparr>"

definition demo_curve :: "byte curve" where
  "demo_curve =
     \<lparr> smul = (\<lambda>n Q. of_nat n * Q),
       base = 1,
       x_bytes = (\<lambda>Q. replicate 31 0 @ [Q]),
       y_bytes = (\<lambda>Q. replicate 32 0),
       y_odd = (\<lambda>Q. False),
       point_of = (\<lambda>bs. if length bs = 65 then Some (bs ! 32) else None) \<rparr>"

definition demo_session :: E2EESession where
  "demo_session = \<lparr> derivedKey = replicate 32 7, seq = 0, peerSeq = -1 \<rparr>"

definition demo_iv :: bytes where
  "demo_iv = replicate 12 9"

text \<open>A frame whose tag does not verify under the key of \<open>demo_session\<close>.\<close>

definition forged_payload :: string where
  "forged_payload = b64_encode demo_platform (replicate 12 0 @ [5] @ replicate 16 0)"

text \<open>The frame that \<open>encrypt\<close> builds for the text \<open>hi\<close> under that key, with sequence number 0.\<close>

definition genuine_payload :: string where
  "genuine_payload = fst (fst (encrypt demo_platform demo_iv demo_session ''hi''))"

text \<open>
  The two sessions of a pairing with code \<open>code\<close>: the desktop's private scalar is 3, the
  mobile's is 5, and each side derives from the other side's public key.
\<close>

definition demo_desktop_session :: DesktopSession where
  "demo_desktop_session =
     the (deriveSession demo_platform demo_curve 3 (fst (mobile_generateKeyPair demo_curve 5)) ''code'')"

definition demo_mobile_session :: E2EESession where
  "demo_mobile_session =
     the (mobile_deriveSession demo_platform demo_curve 5 (fst (generateKeyPair demo_curve 3)) ''code'')"

section \<open>Properties\<close>

subsection \<open>Facts about the concrete runs\<close>

lemma two_accounts_state:
  "closures (run two_accounts_run) 0 = Some dev_D1"
  "closures (run two_accounts_run) 1 = Some dev_M2"
  "closures (run two_accounts_run) 2 = Some dev_M1"
  "devices (run two_accounts_run) ''D1'' = Some dev_D1"
  "pendingPairings (run two_accounts_run) ''C3'' = Some entry_C3"
  "pairedRelations (run two_accounts_run) = []"
  "readyState (run two_accounts_run) 0 = OPEN"
  "readyState (run two_accounts_run) 1 = OPEN"
  "readyState (run two_accounts_run) 2 = OPEN"
  "wire (run two_accounts_run) = [Send 1 (DeviceList []), Send 2 (DeviceList [])]"
  by code_simp+


lemma claim_msg_fields:
  "m_pairingCode (claim_msg code pk) = Some code"
  "m_publicKey (claim_msg code pk) = Some pk"
  "m_type (claim_msg code pk) = Some ''claim-pairing''"
  by (simp_all add: claim_msg_def blank_def)

lemma paired_state:
  "closures (run paired_run) 0 = Some dev_D"
  "closures (run paired_run) 1 = Some dev_M"
  "readyState (run paired_run) 0 = OPEN"
  "readyState (run paired_run) 1 = OPEN"
  "wire (run paired_run) = [Send 1 (DeviceList []), Send 0 (PairingAcceptedToDesktop ''KM'' ''M'' ''Phone''),
     Send 1 (PairingAcceptedToMobile ''D'' ''Desk'' ''KD'')]"
  "devices (run paired_run) ''D'' = Some dev_D"
  "devices (run paired_run) ''M'' = Some dev_M"
  "pairedRelations (run paired_run) =
     [\<lparr> pr_desktopId = ''D'', pr_mobileId = ''M'', pr_userId = ''U1'', pr_pairedAt = 3 \<rparr>]"
  by code_simp+

subsection \<open>Pairing\<close>

text \<open>
  Claim C6. A mobile claims a code whose offer was registered under another user id: the
  claimer gets the error frame (when its socket is open) and nothing else happens. The
  offer, the pair relations and the device registry are as before, and the only frame
  written goes to the claimer, so nothing is sent to the desktop. A following claim of
  the same code by a mobile of the registering user, within the TTL, goes through: the
  code is consumed, the relation is created and the mobile gets \<open>pairing-accepted\<close>.
\<close>

theorem claim_other_account_rejected:
  assumes mob: "d_deviceType device = Mobile"
    and code: "m_pairingCode msg = Some code" "code \<noteq> []"
    and key: "truthy (m_publicKey msg)"
    and entry: "pendingPairings s code = Some entry"
    and other: "pe_userId entry \<noteq> d_userId device"
    and mob1: "d_deviceType device1 = Mobile"
    and own1: "d_userId device1 = pe_userId entry"
    and code1: "m_pairingCode msg1 = Some code"
    and key1: "m_publicKey msg1 = Some pk1" "pk1 \<noteq> []"
    and fresh1: "now1 - pe_createdAt entry \<le> PAIRING_TTL"
    and open1: "readyState s (d_ws device1) = OPEN"
  shows "let s' = handleClaimPairing now device msg s;
             s'' = handleClaimPairing now1 device1 msg1 s'
         in s' = sendTo (d_ws device) (Error ''Pairing code belongs to a different account'') s
          \<and> pendingPairings s' = pendingPairings s
          \<and> pairedRelations s' = pairedRelations s
          \<and> devices s' = devices s
          \<and> wire s' = wire s @ (if readyState s (d_ws device) = OPEN
                                 then [Send (d_ws device) (Error ''Pairing code belongs to a different account'')]
                                 else [])
          \<and> s'' = claim_notify device1 entry pk1 (claim_commit now1 device1 entry code s')
          \<and> pendingPairings s'' code = None
          \<and> last (pairedRelations s'') = \<lparr> pr_desktopId = pe_desktopId entry, pr_mobileId = d_deviceId device1,
                 pr_userId = d_userId device1, pr_pairedAt = now1 \<rparr>
          \<and> last (wire s'') = Send (d_ws device1)
                 (PairingAcceptedToMobile (pe_desktopId entry) (pe_deviceName entry) (pe_desktopPublicKey entry))"
proof -
  let ?e = "Error ''Pairing code belongs to a different account''"
  have 1: "handleClaimPairing now device msg s = sendTo (d_ws device) ?e s"
    using mob code key entry other by (simp add: handleClaimPairing_def)
  have 2: "pendingPairings (sendTo (d_ws device) ?e s) = pendingPairings s"
          "pairedRelations (sendTo (d_ws device) ?e s) = pairedRelations s"
          "devices (sendTo (d_ws device) ?e s) = devices s"
          "readyState (sendTo (d_ws device) ?e s) = readyState s"
    by (simp_all add: sendTo_def)
  have 3: "handleClaimPairing now1 device1 msg1 (sendTo (d_ws device) ?e s) =
             claim_notify device1 entry pk1 (claim_commit now1 device1 entry code (sendTo (d_ws device) ?e s))"
    using mob1 own1 code1 code key1 fresh1 entry 2 by (simp add: handleClaimPairing_def)
  show ?thesis
    unfolding Let_def 1 3
    using open1 2
    by (simp add: sendTo_def claim_notify_def claim_commit_def journal_add_def split: option.split)
qed

theorem claim_other_account_rejected_witness:
  "pendingPairings (run two_accounts_run) ''C3'' = Some entry_C3
   \<and> pe_userId entry_C3 \<noteq> d_userId dev_M2
   \<and> wire (handleClaimPairing 10 dev_M2 (claim_msg ''C3'' ''KM2'') (run two_accounts_run)) =
       [Send 1 (DeviceList []), Send 2 (DeviceList []),
        Send 1 (Error ''Pairing code belongs to a different account'')]
   \<and> pendingPairings (handleClaimPairing 10 dev_M2 (claim_msg ''C3'' ''KM2'') (run two_accounts_run)) ''C3''
       = Some entry_C3
   \<and> last (wire (handleClaimPairing 11 dev_M1 (claim_msg ''C3'' ''KM1'')
                   (handleClaimPairing 10 dev_M2 (claim_msg ''C3'' ''KM2'') (run two_accounts_run)))) =
       Send 2 (PairingAcceptedToMobile ''D1'' ''Desk'' ''KD'')"
proof -
  have w: "d_ws dev_M2 = 1" "d_ws dev_M1 = 2" "pe_desktopId entry_C3 = ''D1''"
    "pe_deviceName entry_C3 = ''Desk''" "pe_desktopPublicKey entry_C3 = ''KD''"
    by (simp_all add: dev_M2_def dev_M1_def entry_C3_def)
  have h: "d_deviceType dev_M2 = Mobile" "''C3'' \<noteq> []" "truthy (m_publicKey (claim_msg ''C3'' ''KM2''))"
    "pe_userId entry_C3 \<noteq> d_userId dev_M2" "d_deviceType dev_M1 = Mobile"
    "d_userId dev_M1 = pe_userId entry_C3" "''KM1'' \<noteq> []"
    "11 - pe_createdAt entry_C3 \<le> PAIRING_TTL"
    by (simp_all add: dev_M2_def dev_M1_def entry_C3_def claim_msg_fields PAIRING_TTL_def)
  have o: "readyState (run two_accounts_run) (d_ws dev_M1) = OPEN"
    "readyState (run two_accounts_run) (d_ws dev_M2) = OPEN"
    unfolding w by (rule two_accounts_state)+
  let ?s = "run two_accounts_run"
  let ?s' = "handleClaimPairing 10 dev_M2 (claim_msg ''C3'' ''KM2'') ?s"
  note r = claim_other_account_rejected [where now = 10 and ?now1.0 = 11,
      OF h(1) claim_msg_fields(1) h(2) h(3) two_accounts_state(5) h(4) h(5) h(6)
         claim_msg_fields(1) claim_msg_fields(2) h(7) h(8) o(1), unfolded Let_def]
  have a: "wire ?s' = wire ?s @ (if readyState ?s (d_ws dev_M2) = OPEN
             then [Send (d_ws dev_M2) (Error ''Pairing code belongs to a different account'')] else [])"
    using r by blast
  have b: "pendingPairings ?s' = pendingPairings ?s"
    using r by blast
  have c: "last (wire (handleClaimPairing 11 dev_M1 (claim_msg ''C3'' ''KM1'') ?s')) =
      Send (d_ws dev_M1) (PairingAcceptedToMobile (pe_desktopId entry_C3) (pe_deviceName entry_C3)
        (pe_desktopPublicKey entry_C3))"
    using r by blast
  show ?thesis
    unfolding a b c o(2) w by (simp add: two_accounts_state h(4) del: One_nat_def)
qed

text \<open>
  Claim C7. A claim that passes the checks deletes the code and then notifies the peers.
  The journal shows the order: the deletion is stamped with the length the trace had when
  the handler started, so it ran before any frame of this handler was written, and the
  two \<open>pairing-accepted\<close> frames (to the desktop if it is attached, then to the mobile, each
  when its socket is open) are the frames from that position on. Put differently, the
  handler is the notification applied to the state in which the code is already gone
  and nothing has been written. The code stays gone afterwards, and a second claim of it
  is answered with the error frame alone.
\<close>

theorem pairing_code_consumed_once:
  assumes mob: "d_deviceType device = Mobile"
    and code: "m_pairingCode msg = Some code" "code \<noteq> []"
    and key: "m_publicKey msg = Some pk" "pk \<noteq> []"
    and entry: "pendingPairings s code = Some entry"
    and own: "pe_userId entry = d_userId device"
    and fresh: "now - pe_createdAt entry \<le> PAIRING_TTL"
    and mob2: "d_deviceType device2 = Mobile"
    and code2: "m_pairingCode msg2 = Some code"
    and key2: "truthy (m_publicKey msg2)"
  shows "let mid = claim_commit now device entry code s;
             s' = handleClaimPairing now device msg s
         in s' = claim_notify device entry pk mid
          \<and> pendingPairings mid code = None
          \<and> wire mid = wire s
          \<and> pendingPairings s' code = None
          \<and> journal s' = journal s @ [(PairingDeleted code, length (wire s))]
          \<and> wire s' = wire s
                @ (case devices s (pe_desktopId entry) of
                     None \<Rightarrow> []
                   | Some desktop \<Rightarrow>
                       if readyState s (d_ws desktop) = OPEN
                       then [Send (d_ws desktop)
                               (PairingAcceptedToDesktop pk (d_deviceId device) (d_deviceName device))]
                       else [])
                @ (if readyState s (d_ws device) = OPEN
                   then [Send (d_ws device)
                           (PairingAcceptedToMobile (pe_desktopId entry) (pe_deviceName entry)
                              (pe_desktopPublicKey entry))]
                   else [])
          \<and> handleClaimPairing now2 device2 msg2 s' =
              sendTo (d_ws device2) (Error ''Invalid or expired pairing code'') s'"
proof -
  let ?mid = "claim_commit now device entry code s"
  have 1: "handleClaimPairing now device msg s = claim_notify device entry pk ?mid"
    using mob code key entry own fresh by (simp add: handleClaimPairing_def)
  have 2: "pendingPairings (claim_notify device entry pk st) = pendingPairings st"
    "journal (claim_notify device entry pk st) = journal st" for st
    by (simp_all add: claim_notify_def sendTo_def split: option.split)
  have 3: "pendingPairings ?mid code = None" "wire ?mid = wire s"
    "journal ?mid = journal s @ [(PairingDeleted code, length (wire s))]"
    "devices ?mid = devices s" "readyState ?mid = readyState s"
    by (simp_all add: claim_commit_def journal_add_def)
  have 4: "pendingPairings st code = None \<Longrightarrow> handleClaimPairing now2 device2 msg2 st =
              sendTo (d_ws device2) (Error ''Invalid or expired pairing code'') st" for st
    using mob2 code2 code key2 by (simp add: handleClaimPairing_def)
  have 5: "wire (claim_notify device entry pk ?mid) = wire s
                @ (case devices s (pe_desktopId entry) of
                     None \<Rightarrow> []
                   | Some desktop \<Rightarrow>
                       if readyState s (d_ws desktop) = OPEN
                       then [Send (d_ws desktop)
                               (PairingAcceptedToDesktop pk (d_deviceId device) (d_deviceName device))]
                       else [])
                @ (if readyState s (d_ws device) = OPEN
                   then [Send (d_ws device)
                           (PairingAcceptedToMobile (pe_desktopId entry) (pe_deviceName entry)
                              (pe_desktopPublicKey entry))]
                   else [])"
    by (simp add: claim_notify_def sendTo_def 3 split: option.split)
  show ?thesis
    unfolding Let_def 1 using 2 3(1,2,3) 4 5 by simp
qed

text \<open>
  The order is visible: were the peers notified first and the code deleted afterwards,
  the deletion would carry a later stamp as soon as one frame is written.
\<close>

lemma notify_then_commit_differs:
  assumes "readyState s (d_ws device) = OPEN"
  shows "journal (claim_commit now device entry code (claim_notify device entry pk s))
           \<noteq> journal (claim_notify device entry pk (claim_commit now device entry code s))"
  using assms
  by (simp add: claim_notify_def claim_commit_def journal_add_def sendTo_def split: option.split)

lemma two_accounts_journal: "journal (run two_accounts_run) = [(PairingSet ''C3'', 0)]"
  by code_simp

theorem pairing_code_consumed_once_witness:
  "pendingPairings (run two_accounts_run) ''C3'' = Some entry_C3
   \<and> journal (run two_accounts_run) = [(PairingSet ''C3'', 0)]
   \<and> wire (run two_accounts_run) = [Send 1 (DeviceList []), Send 2 (DeviceList [])]
   \<and> journal (handleClaimPairing 10 dev_M1 (claim_msg ''C3'' ''KM1'') (run two_accounts_run)) =
       [(PairingSet ''C3'', 0), (PairingDeleted ''C3'', 2)]
   \<and> wire (handleClaimPairing 10 dev_M1 (claim_msg ''C3'' ''KM1'') (run two_accounts_run)) =
       [Send 1 (DeviceList []), Send 2 (DeviceList []),
        Send 0 (PairingAcceptedToDesktop ''KM1'' ''M1'' ''Phone1''),
        Send 2 (PairingAcceptedToMobile ''D1'' ''Desk'' ''KD'')]
   \<and> pendingPairings (handleClaimPairing 10 dev_M1 (claim_msg ''C3'' ''KM1'') (run two_accounts_run)) ''C3''
       = None
   \<and> wire (handleClaimPairing 11 dev_M1 (claim_msg ''C3'' ''KM1'')
             (handleClaimPairing 10 dev_M1 (claim_msg ''C3'' ''KM1'') (run two_accounts_run))) =
       [Send 1 (DeviceList []), Send 2 (DeviceList []),
        Send 0 (PairingAcceptedToDesktop ''KM1'' ''M1'' ''Phone1''),
        Send 2 (PairingAcceptedToMobile ''D1'' ''Desk'' ''KD''),
        Send 2 (Error ''Invalid or expired pairing code'')]"
proof -
  let ?s = "run two_accounts_run"
  let ?s' = "handleClaimPairing 10 dev_M1 (claim_msg ''C3'' ''KM1'') ?s"
  have h: "d_deviceType dev_M1 = Mobile" "''C3'' \<noteq> []" "''KM1'' \<noteq> []"
    "pe_userId entry_C3 = d_userId dev_M1" "10 - pe_createdAt entry_C3 \<le> PAIRING_TTL"
    "truthy (m_publicKey (claim_msg ''C3'' ''KM1''))"
    by (simp_all add: dev_M1_def entry_C3_def claim_msg_fields PAIRING_TTL_def)
  note r = pairing_code_consumed_once [where now = 10 and ?now2.0 = 11,
      OF h(1) claim_msg_fields(1) h(2) claim_msg_fields(2) h(3) two_accounts_state(5) h(4) h(5)
         h(1) claim_msg_fields(1) h(6), unfolded Let_def]
  have a: "?s' = claim_notify dev_M1 entry_C3 ''KM1'' (claim_commit 10 dev_M1 entry_C3 ''C3'' ?s)"
    using r by blast
  have b: "pendingPairings ?s' ''C3'' = None"
    using r by blast
  have c: "handleClaimPairing 11 dev_M1 (claim_msg ''C3'' ''KM1'') ?s' =
      sendTo (d_ws dev_M1) (Error ''Invalid or expired pairing code'') ?s'"
    using r by blast
  have j: "journal ?s' = journal ?s @ [(PairingDeleted ''C3'', length (wire ?s))]"
    using r by blast
  have w0: "wire ?s' = wire ?s
                @ (case devices ?s (pe_desktopId entry_C3) of
                     None \<Rightarrow> []
                   | Some desktop \<Rightarrow>
                       if readyState ?s (d_ws desktop) = OPEN
                       then [Send (d_ws desktop)
                               (PairingAcceptedToDesktop ''KM1'' (d_deviceId dev_M1) (d_deviceName dev_M1))]
                       else [])
                @ (if readyState ?s (d_ws dev_M1) = OPEN
                   then [Send (d_ws dev_M1)
                           (PairingAcceptedToMobile (pe_desktopId entry_C3) (pe_deviceName entry_C3)
                              (pe_desktopPublicKey entry_C3))]
                   else [])"
    using r by blast
  have e: "pe_desktopId entry_C3 = ''D1''" "pe_deviceName entry_C3 = ''Desk''"
    "pe_desktopPublicKey entry_C3 = ''KD''" "d_ws dev_M1 = 2" "d_ws dev_D1 = 0"
    "d_deviceId dev_M1 = ''M1''" "d_deviceName dev_M1 = ''Phone1''"
    by (simp_all add: entry_C3_def dev_M1_def dev_D1_def)
  have w: "wire ?s' = [Send 1 (DeviceList []), Send 2 (DeviceList []),
        Send 0 (PairingAcceptedToDesktop ''KM1'' ''M1'' ''Phone1''),
        Send 2 (PairingAcceptedToMobile ''D1'' ''Desk'' ''KD'')]"
    unfolding w0 e by (simp add: two_accounts_state e del: One_nat_def)
  have o: "readyState ?s' 2 = OPEN"
    unfolding a
    by (simp add: claim_notify_def claim_commit_def journal_add_def sendTo_def two_accounts_state
          dev_M1_def dev_D1_def entry_C3_def del: One_nat_def)
  have w2: "wire (handleClaimPairing 11 dev_M1 (claim_msg ''C3'' ''KM1'') ?s') =
       wire ?s' @ [Send 2 (Error ''Invalid or expired pairing code'')]"
    unfolding c using o by (simp add: sendTo_def dev_M1_def)
  have j2: "journal ?s' = [(PairingSet ''C3'', 0), (PairingDeleted ''C3'', 2)]"
    unfolding j by (simp add: two_accounts_journal two_accounts_state)
  show ?thesis
    unfolding w2 unfolding w b j2 by (simp add: two_accounts_state two_accounts_journal)
qed

subsection \<open>What the relay and connection handlers do in general\<close>

text \<open>
  \<open>handleRelay\<close> forwards exactly when a pair relation names the sender's device id and
  the target's, in either role, and the target is attached; the user id of the relation
  is not looked at. Without such a relation the sender gets the error frame.
\<close>

lemma handleRelay_forwards:
  assumes "m_to msg = Some t" "t \<noteq> []" "m_payload msg = Some p" "p \<noteq> []"
    and "list_ex (\<lambda>r. (pr_desktopId r = d_deviceId device \<and> pr_mobileId r = t) \<or>
                       (pr_mobileId r = d_deviceId device \<and> pr_desktopId r = t)) (pairedRelations s)"
    and "devices s t = Some target"
  shows "handleRelay device msg s = sendTo (d_ws target) (Relay (d_deviceId device) p (m_seq msg)) s"
  using assms by (simp add: handleRelay_def)

lemma handleRelay_not_paired:
  assumes "m_to msg = Some t" "t \<noteq> []" "m_payload msg = Some p" "p \<noteq> []"
    and "\<not> list_ex (\<lambda>r. (pr_desktopId r = d_deviceId device \<and> pr_mobileId r = t) \<or>
                         (pr_mobileId r = d_deviceId device \<and> pr_desktopId r = t)) (pairedRelations s)"
  shows "handleRelay device msg s = sendTo (d_ws device) (Error ''Not paired with target device'') s"
  using assms by (simp add: handleRelay_def)

text \<open>
  The loops that notify peers and list desktops only write frames: the registry is as
  before and the trace grows at its end.
\<close>

lemma sendTo_frame:
  "devices (sendTo w f s) = devices s"
  "\<exists>xs. wire (sendTo w f s) = wire s @ xs"
  by (simp_all add: sendTo_def)

lemma notify_loop_frame:
  "devices (notify_loop d u ev rels s) = devices s
   \<and> (\<exists>xs. wire (notify_loop d u ev rels s) = wire s @ xs)"
proof (induction rels arbitrary: s)
  case Nil
  then show ?case by simp
next
  case (Cons rel rels)
  have "notify_loop d u ev (rel # rels) s = notify_loop d u ev rels s
      \<or> (\<exists>w f. notify_loop d u ev (rel # rels) s = notify_loop d u ev rels (sendTo w f s))"
    by (auto simp add: Let_def split: option.split)
  then consider (skip) "notify_loop d u ev (rel # rels) s = notify_loop d u ev rels s"
    | (send) w f where "notify_loop d u ev (rel # rels) s = notify_loop d u ev rels (sendTo w f s)"
    by blast
  then show ?case
  proof cases
    case skip
    then show ?thesis using Cons.IH [of s] by simp
  next
    case send
    obtain ys where ys: "wire (sendTo w f s) = wire s @ ys"
      using sendTo_frame(2) by blast
    obtain xs where xs: "wire (notify_loop d u ev rels (sendTo w f s)) = wire (sendTo w f s) @ xs"
      using Cons.IH [of "sendTo w f s"] by blast
    have "devices (notify_loop d u ev rels (sendTo w f s)) = devices s"
      using Cons.IH [of "sendTo w f s"] by (simp add: sendTo_frame(1))
    moreover have "wire (notify_loop d u ev rels (sendTo w f s)) = wire s @ (ys @ xs)"
      using xs ys by simp
    ultimately show ?thesis
      unfolding send by blast
  qed
qed

text \<open>
  A second connection under a device id whose socket is open: that socket is closed with
  code 1000 and the reason below, and the registry maps the device id to the new socket.
\<close>

lemma on_connection_replaces:
  assumes "devices s deviceId = Some existing" and "readyState s (d_ws existing) = OPEN"
    and "d_ws existing \<noteq> next_ws s"
  shows "Close (d_ws existing) 1000 ''Replaced by new connection''
           \<in> set (wire (on_connection now userId deviceId deviceType deviceName s))
       \<and> map_option d_ws (devices (on_connection now userId deviceId deviceType deviceName s) deviceId)
           = Some (next_ws s)"
proof -
  let ?w = "next_ws s"
  let ?s = "s\<lparr> next_ws := Suc ?w, readyState := (readyState s)(?w := OPEN) \<rparr>"
  let ?s1 = "ws_close (d_ws existing) 1000 ''Replaced by new connection'' ?s"
  let ?device = "\<lparr> d_ws = ?w, d_userId = userId, d_deviceId = deviceId, d_deviceType = deviceType,
                     d_deviceName = deviceName, d_connectedAt = now \<rparr>"
  let ?s2 = "?s1\<lparr> devices := (devices ?s1)(deviceId \<mapsto> ?device),
                   closures := (closures ?s1)(?w \<mapsto> ?device) \<rparr>"
  let ?s3 = "notifyPairedDevices deviceId userId device_online ?s2"
  have c: "Close (d_ws existing) 1000 ''Replaced by new connection'' \<in> set (wire ?s2)"
    using assms by (simp add: ws_close_def)
  have d: "devices ?s2 deviceId = Some ?device"
    by simp
  obtain xs where 3: "devices ?s3 = devices ?s2" "wire ?s3 = wire ?s2 @ xs"
    using notify_loop_frame [of deviceId userId device_online "pairedRelations ?s2" ?s2]
    by (auto simp add: notifyPairedDevices_def)
  have r: "on_connection now userId deviceId deviceType deviceName s =
             (if deviceType = Mobile then sendDesktopList ?w userId ?s3 else ?s3)"
    using assms(1) by (simp add: on_connection_def Let_def)
  have l: "devices (sendDesktopList ?w userId ?s3) = devices ?s3"
    "set (wire ?s3) \<subseteq> set (wire (sendDesktopList ?w userId ?s3))"
    by (auto simp add: sendDesktopList_def sendTo_def)
  show ?thesis
    unfolding r using c d 3 l by (cases "deviceType = Mobile") auto
qed


text \<open>
  The close handler of a socket deletes the registry entry of its device id, whichever
  socket that entry belongs to.
\<close>

lemma on_close_deletes:
  assumes "closures s w = Some device" and "readyState s w \<noteq> CLOSED"
  shows "devices (on_close w s) (d_deviceId device) = None"
  using assms notify_loop_frame
  by (simp add: on_close_def notifyPairedDevices_def Let_def)

subsection \<open>Relay across accounts, and reconnection\<close>

text \<open>
  Claim C2 on a concrete run: D and M of user U1 are paired; a connection of user U2 is
  admitted under the device id D and sends a relay frame to M. The frame is forwarded to
  M's socket, although the sender's user id is U2 and the only pair relation is U1's.
\<close>

theorem relay_forwarded_across_accounts:
  "wire (run cross_account_run) =
     [Send 1 (DeviceList []),
      Send 0 (PairingAcceptedToDesktop ''KM'' ''M'' ''Phone''),
      Send 1 (PairingAcceptedToMobile ''D'' ''Desk'' ''KD''),
      Close 0 1000 ''Replaced by new connection'',
      Send 1 (Relay ''D'' ''X'' (Some 0))]
   \<and> map_option d_userId (closures (run cross_account_run) 2) = Some ''U2''
   \<and> map pr_userId (pairedRelations (run cross_account_run)) = [''U1'']"
  by code_simp

text \<open>
  Claim C3 on a concrete run: D connects a second time. Its first socket is closed with
  the reason "Replaced by new connection" and the registry maps D to the second socket.
  When the close event of the first socket then fires, the registry entry of D is deleted
  although the second socket is open, and \<open>device-offline\<close> goes to the paired mobile.
\<close>

theorem old_close_drops_new_connection:
  "map_option d_ws (devices (run reconnect_run) ''D'') = Some 2
   \<and> wire (run reconnect_run) =
       [Send 1 (DeviceList []),
        Send 0 (PairingAcceptedToDesktop ''KM'' ''M'' ''Phone''),
        Send 1 (PairingAcceptedToMobile ''D'' ''Desk'' ''KD''),
        Close 0 1000 ''Replaced by new connection'',
        Send 1 (DeviceEvent device_online ''D'')]
   \<and> devices (run displacement_run) ''D'' = None
   \<and> readyState (run displacement_run) 2 = OPEN
   \<and> wire (run displacement_run) = wire (run reconnect_run) @ [Send 1 (DeviceEvent device_offline ''D'')]"
  by code_simp

subsection \<open>No handler of a client frame closes a socket\<close>

lemma readyState_sendTo: "readyState (sendTo w f s) = readyState s"
  by (simp add: sendTo_def)

lemma readyState_handleRegisterPairing: "readyState (handleRegisterPairing now device msg s) = readyState s"
  by (simp add: handleRegisterPairing_def journal_add_def readyState_sendTo Let_def)

lemma readyState_claim_notify: "readyState (claim_notify device entry pk s) = readyState s"
  by (simp add: claim_notify_def readyState_sendTo Let_def split: option.split)

lemma readyState_handleClaimPairing: "readyState (handleClaimPairing now device msg s) = readyState s"
  by (simp add: handleClaimPairing_def readyState_claim_notify claim_commit_def journal_add_def
        readyState_sendTo Let_def split: option.split)

lemma readyState_handleRelay: "readyState (handleRelay device msg s) = readyState s"
  by (simp add: handleRelay_def readyState_sendTo Let_def split: option.split)

lemma readyState_handleRevokePairing: "readyState (handleRevokePairing device msg s) = readyState s"
  by (simp add: handleRevokePairing_def readyState_sendTo Let_def split: option.split)

lemma readyState_handleControlRequest: "readyState (handleControlRequest device msg s) = readyState s"
  by (simp add: handleControlRequest_def readyState_sendTo Let_def split: option.split)

lemma readyState_handleControlAck: "readyState (handleControlAck device msg s) = readyState s"
  by (simp add: handleControlAck_def readyState_sendTo split: option.split)

lemma readyState_handleControlRevoked: "readyState (handleControlRevoked device msg s) = readyState s"
  by (simp add: handleControlRevoked_def readyState_sendTo split: option.split)

lemma readyState_handleMessage: "readyState (handleMessage now device msg s) = readyState s"
  by (simp add: handleMessage_def readyState_sendTo readyState_handleRegisterPairing
        readyState_handleClaimPairing readyState_handleRelay readyState_handleRevokePairing
        readyState_handleControlRequest readyState_handleControlAck readyState_handleControlRevoked)

subsection \<open>Frames with a missing field\<close>

text \<open>
  Claim C9, as amended. A frame that lacks a required field never closes a socket, and
  the only frame it can cause is one error frame to the sender, which \<open>sendTo\<close> writes if
  the sender's socket is open and drops if it is not. Which of the two, error or nothing,
  depends on the handler. \<open>register-pairing\<close> and \<open>claim-pairing\<close> without \<open>pairingCode\<close> or
  \<open>publicKey\<close> get the error frame: the role error when the sender has the wrong role, the
  missing-field error otherwise. \<open>relay\<close> without \<open>to\<close> or \<open>payload\<close> gets the error frame.
  \<open>control-request\<close> without \<open>targetDesktopId\<close> gets the role error when the sender is not
  a mobile and is dropped when it is. \<open>revoke-pairing\<close> without \<open>targetDeviceId\<close>,
  \<open>control-ack\<close> and \<open>control-revoked\<close> without \<open>to\<close> are dropped: the state, and so the
  trace of frames, is as before. The \<open>seq\<close> of a \<open>relay\<close> and the \<open>accepted\<close> of a
  \<open>control-ack\<close> are not looked at: such a frame is routed like a complete one, and the
  forwarded frame lacks the field.
\<close>

theorem missing_field_replies:
  "(m_type msg = Some ''register-pairing'' \<and>
      (\<not> truthy (m_pairingCode msg) \<or> \<not> truthy (m_publicKey msg)) \<longrightarrow>
      handleMessage now device msg s =
        sendTo (d_ws device)
          (Error (if d_deviceType device = Desktop then ''Missing pairingCode or publicKey''
                  else ''Only desktop can register pairing'')) s)
   \<and> (m_type msg = Some ''claim-pairing'' \<and>
      (\<not> truthy (m_pairingCode msg) \<or> \<not> truthy (m_publicKey msg)) \<longrightarrow>
      handleMessage now device msg s =
        sendTo (d_ws device)
          (Error (if d_deviceType device = Mobile then ''Missing pairingCode or publicKey''
                  else ''Only mobile can claim pairing'')) s)
   \<and> (m_type msg = Some ''relay'' \<and> (\<not> truthy (m_to msg) \<or> \<not> truthy (m_payload msg)) \<longrightarrow>
      handleMessage now device msg s =
        sendTo (d_ws device) (Error ''Missing relay target or payload'') s)
   \<and> (m_type msg = Some ''revoke-pairing'' \<and> \<not> truthy (m_targetDeviceId msg) \<longrightarrow>
      handleMessage now device msg s = s)
   \<and> (m_type msg = Some ''control-request'' \<and> \<not> truthy (m_targetDesktopId msg) \<longrightarrow>
      handleMessage now device msg s =
        (if d_deviceType device = Mobile then s
         else sendTo (d_ws device) (Error ''Only mobile can request control'') s))
   \<and> (m_type msg = Some ''control-ack'' \<and> \<not> truthy (m_to msg) \<longrightarrow>
      handleMessage now device msg s = s)
   \<and> (m_type msg = Some ''control-revoked'' \<and> \<not> truthy (m_to msg) \<longrightarrow>
      handleMessage now device msg s = s)
   \<and> (m_type msg = Some ''relay'' \<and> m_to msg = Some t \<and> t \<noteq> [] \<and> m_payload msg = Some p \<and> p \<noteq> [] \<and>
      m_seq msg = None \<and>
      list_ex (\<lambda>r. (pr_desktopId r = d_deviceId device \<and> pr_mobileId r = t) \<or>
                   (pr_mobileId r = d_deviceId device \<and> pr_desktopId r = t)) (pairedRelations s) \<and>
      devices s t = Some target \<longrightarrow>
      handleMessage now device msg s = sendTo (d_ws target) (Relay (d_deviceId device) p None) s)
   \<and> (m_type msg = Some ''control-ack'' \<and> m_to msg = Some t \<and> t \<noteq> [] \<and> m_accepted msg = None \<and>
      devices s t = Some target \<longrightarrow>
      handleMessage now device msg s = sendTo (d_ws target) (ControlAck (d_deviceId device) None) s)
   \<and> sendTo w f s = s\<lparr> wire := wire s @ (if readyState s w = OPEN then [Send w f] else []) \<rparr>
   \<and> readyState (handleMessage now device msg s) = readyState s"
proof -
  have 1: "m_type msg = Some ''register-pairing'' \<Longrightarrow> handleMessage now device msg s = handleRegisterPairing now device msg s"
    and 2: "m_type msg = Some ''claim-pairing'' \<Longrightarrow> handleMessage now device msg s = handleClaimPairing now device msg s"
    and 3: "m_type msg = Some ''relay'' \<Longrightarrow> handleMessage now device msg s = handleRelay device msg s"
    and 4: "m_type msg = Some ''revoke-pairing'' \<Longrightarrow> handleMessage now device msg s = handleRevokePairing device msg s"
    and 5: "m_type msg = Some ''control-request'' \<Longrightarrow> handleMessage now device msg s = handleControlRequest device msg s"
    and 6: "m_type msg = Some ''control-ack'' \<Longrightarrow> handleMessage now device msg s = handleControlAck device msg s"
    and 7: "m_type msg = Some ''control-revoked'' \<Longrightarrow> handleMessage now device msg s = handleControlRevoked device msg s"
    by (simp_all add: handleMessage_def)
  have A: "m_type msg = Some ''register-pairing'' \<and>
      (\<not> truthy (m_pairingCode msg) \<or> \<not> truthy (m_publicKey msg)) \<longrightarrow>
      handleMessage now device msg s =
        sendTo (d_ws device)
          (Error (if d_deviceType device = Desktop then ''Missing pairingCode or publicKey''
                  else ''Only desktop can register pairing'')) s"
    using 1 by (auto simp add: handleRegisterPairing_def)
  have B: "m_type msg = Some ''claim-pairing'' \<and>
      (\<not> truthy (m_pairingCode msg) \<or> \<not> truthy (m_publicKey msg)) \<longrightarrow>
      handleMessage now device msg s =
        sendTo (d_ws device)
          (Error (if d_deviceType device = Mobile then ''Missing pairingCode or publicKey''
                  else ''Only mobile can claim pairing'')) s"
    using 2 by (auto simp add: handleClaimPairing_def)
  have C: "m_type msg = Some ''relay'' \<and> (\<not> truthy (m_to msg) \<or> \<not> truthy (m_payload msg)) \<longrightarrow>
      handleMessage now device msg s =
        sendTo (d_ws device) (Error ''Missing relay target or payload'') s"
    using 3 by (auto simp add: handleRelay_def)
  have D: "m_type msg = Some ''revoke-pairing'' \<and> \<not> truthy (m_targetDeviceId msg) \<longrightarrow>
      handleMessage now device msg s = s"
    using 4 by (simp add: handleRevokePairing_def)
  have E: "m_type msg = Some ''control-request'' \<and> \<not> truthy (m_targetDesktopId msg) \<longrightarrow>
      handleMessage now device msg s =
        (if d_deviceType device = Mobile then s
         else sendTo (d_ws device) (Error ''Only mobile can request control'') s)"
    using 5 by (simp add: handleControlRequest_def)
  have F: "m_type msg = Some ''control-ack'' \<and> \<not> truthy (m_to msg) \<longrightarrow>
      handleMessage now device msg s = s"
    using 6 by (simp add: handleControlAck_def)
  have G: "m_type msg = Some ''control-revoked'' \<and> \<not> truthy (m_to msg) \<longrightarrow>
      handleMessage now device msg s = s"
    using 7 by (simp add: handleControlRevoked_def)
  have H: "m_type msg = Some ''relay'' \<and> m_to msg = Some t \<and> t \<noteq> [] \<and> m_payload msg = Some p \<and> p \<noteq> [] \<and>
      m_seq msg = None \<and>
      list_ex (\<lambda>r. (pr_desktopId r = d_deviceId device \<and> pr_mobileId r = t) \<or>
                   (pr_mobileId r = d_deviceId device \<and> pr_desktopId r = t)) (pairedRelations s) \<and>
      devices s t = Some target \<longrightarrow>
      handleMessage now device msg s = sendTo (d_ws target) (Relay (d_deviceId device) p None) s"
    using 3 handleRelay_forwards [of msg t p device s target] by simp
  have I: "m_type msg = Some ''control-ack'' \<and> m_to msg = Some t \<and> t \<noteq> [] \<and> m_accepted msg = None \<and>
      devices s t = Some target \<longrightarrow>
      handleMessage now device msg s = sendTo (d_ws target) (ControlAck (d_deviceId device) None) s"
    using 6 by (simp add: handleControlAck_def)
  have J: "sendTo w f s = s\<lparr> wire := wire s @ (if readyState s w = OPEN then [Send w f] else []) \<rparr>"
    by (simp add: sendTo_def)
  show ?thesis
    using A B C D E F G H I J readyState_handleMessage [of now device msg s] by blast
qed

lemma reconnect_state:
  "closures (run reconnect_run) 0 = Some dev_D"
  "readyState (run reconnect_run) 0 = CLOSING"
  by code_simp+

theorem missing_field_replies_witness:
  "readyState (run paired_run) (d_ws dev_M) = OPEN
   \<and> readyState (run paired_run) (d_ws dev_D) = OPEN
   \<and> readyState (run reconnect_run) (d_ws dev_D) = CLOSING
   \<and> wire (handleMessage 9 dev_D (blank ''register-pairing'') (run paired_run)) =
       wire (run paired_run) @ [Send 0 (Error ''Missing pairingCode or publicKey'')]
   \<and> wire (handleMessage 9 dev_M (blank ''register-pairing'') (run paired_run)) =
       wire (run paired_run) @ [Send 1 (Error ''Only desktop can register pairing'')]
   \<and> wire (handleMessage 9 dev_M (blank ''claim-pairing'') (run paired_run)) =
       wire (run paired_run) @ [Send 1 (Error ''Missing pairingCode or publicKey'')]
   \<and> wire (handleMessage 9 dev_D (blank ''claim-pairing'') (run paired_run)) =
       wire (run paired_run) @ [Send 0 (Error ''Only mobile can claim pairing'')]
   \<and> wire (handleMessage 9 dev_M (blank ''relay'') (run paired_run)) =
       wire (run paired_run) @ [Send 1 (Error ''Missing relay target or payload'')]
   \<and> wire (handleMessage 9 dev_D (blank ''relay'') (run reconnect_run)) = wire (run reconnect_run)
   \<and> handleMessage 9 dev_M (blank ''revoke-pairing'') (run paired_run) = run paired_run
   \<and> handleMessage 9 dev_M (blank ''control-request'') (run paired_run) = run paired_run
   \<and> wire (handleMessage 9 dev_D (blank ''control-request'') (run paired_run)) =
       wire (run paired_run) @ [Send 0 (Error ''Only mobile can request control'')]
   \<and> handleMessage 9 dev_M (blank ''control-ack'') (run paired_run) = run paired_run
   \<and> handleMessage 9 dev_M (blank ''control-revoked'') (run paired_run) = run paired_run
   \<and> wire (handleMessage 9 dev_M ((blank ''relay'')\<lparr> m_to := Some ''D'', m_payload := Some ''X'' \<rparr>)
             (run paired_run)) = wire (run paired_run) @ [Send 0 (Relay ''M'' ''X'' None)]
   \<and> wire (handleMessage 9 dev_D ((blank ''control-ack'')\<lparr> m_to := Some ''M'' \<rparr>) (run paired_run)) =
       wire (run paired_run) @ [Send 1 (ControlAck ''D'' None)]"
proof -
  let ?s = "run paired_run" and ?r = "run reconnect_run"
  have w: "d_ws dev_M = 1" "d_ws dev_D = 0" "d_deviceType dev_M = Mobile" "d_deviceType dev_D = Desktop"
    "d_deviceId dev_M = ''M''" "d_deviceId dev_D = ''D''"
    by (simp_all add: dev_M_def dev_D_def)
  have o: "readyState ?s (d_ws dev_M) = OPEN" "readyState ?s (d_ws dev_D) = OPEN"
    "readyState ?r (d_ws dev_D) = CLOSING"
    unfolding w by (rule paired_state reconnect_state)+
  have m: "m_type (blank t) = Some t" "\<not> truthy (m_pairingCode (blank t))" "\<not> truthy (m_to (blank t))"
    "\<not> truthy (m_targetDeviceId (blank t))" "\<not> truthy (m_targetDesktopId (blank t))" for t
    by (simp_all add: blank_def)
  have snd: "wire (sendTo (d_ws dev_M) f ?s) = wire ?s @ [Send 1 f]"
    "wire (sendTo (d_ws dev_D) f ?s) = wire ?s @ [Send 0 f]"
    "wire (sendTo (d_ws dev_D) f ?r) = wire ?r" for f
    using o by (simp_all add: sendTo_def w)
  have r1: "handleMessage 9 dev_D (blank ''register-pairing'') ?s =
       sendTo (d_ws dev_D) (Error ''Missing pairingCode or publicKey'') ?s"
    using missing_field_replies [where device = dev_D and msg = "blank ''register-pairing''" and now = 9 and s = ?s]
    by (simp add: m w(4))
  have r1b: "handleMessage 9 dev_M (blank ''register-pairing'') ?s =
       sendTo (d_ws dev_M) (Error ''Only desktop can register pairing'') ?s"
    using missing_field_replies [where device = dev_M and msg = "blank ''register-pairing''" and now = 9 and s = ?s]
    by (simp add: m w(3))
  have r2: "handleMessage 9 dev_M (blank ''claim-pairing'') ?s =
       sendTo (d_ws dev_M) (Error ''Missing pairingCode or publicKey'') ?s"
    using missing_field_replies [where device = dev_M and msg = "blank ''claim-pairing''" and now = 9 and s = ?s]
    by (simp add: m w(3))
  have r2b: "handleMessage 9 dev_D (blank ''claim-pairing'') ?s =
       sendTo (d_ws dev_D) (Error ''Only mobile can claim pairing'') ?s"
    using missing_field_replies [where device = dev_D and msg = "blank ''claim-pairing''" and now = 9 and s = ?s]
    by (simp add: m w(4))
  have r3: "handleMessage 9 dev_M (blank ''relay'') ?s =
       sendTo (d_ws dev_M) (Error ''Missing relay target or payload'') ?s"
    using missing_field_replies [where device = dev_M and msg = "blank ''relay''" and now = 9 and s = ?s]
    by (simp add: m)
  have r3b: "handleMessage 9 dev_D (blank ''relay'') ?r =
       sendTo (d_ws dev_D) (Error ''Missing relay target or payload'') ?r"
    using missing_field_replies [where device = dev_D and msg = "blank ''relay''" and now = 9 and s = ?r]
    by (simp add: m)
  have r4: "handleMessage 9 dev_M (blank ''revoke-pairing'') ?s = ?s"
    using missing_field_replies [where device = dev_M and msg = "blank ''revoke-pairing''" and now = 9 and s = ?s]
    by (simp add: m)
  have r5: "handleMessage 9 dev_M (blank ''control-request'') ?s = ?s"
    using missing_field_replies [where device = dev_M and msg = "blank ''control-request''" and now = 9 and s = ?s]
    by (simp add: m w(3))
  have r5b: "handleMessage 9 dev_D (blank ''control-request'') ?s =
       sendTo (d_ws dev_D) (Error ''Only mobile can request control'') ?s"
    using missing_field_replies [where device = dev_D and msg = "blank ''control-request''" and now = 9 and s = ?s]
    by (simp add: m w(4))
  have r6: "handleMessage 9 dev_M (blank ''control-ack'') ?s = ?s"
    using missing_field_replies [where device = dev_M and msg = "blank ''control-ack''" and now = 9 and s = ?s]
    by (simp add: m)
  have r7: "handleMessage 9 dev_M (blank ''control-revoked'') ?s = ?s"
    using missing_field_replies [where device = dev_M and msg = "blank ''control-revoked''" and now = 9 and s = ?s]
    by (simp add: m)
  have p: "list_ex (\<lambda>r. (pr_desktopId r = d_deviceId dev_M \<and> pr_mobileId r = ''D'') \<or>
                       (pr_mobileId r = d_deviceId dev_M \<and> pr_desktopId r = ''D''))
             (pairedRelations ?s)"
    by (simp add: paired_state dev_M_def)
  have r8: "handleMessage 9 dev_M ((blank ''relay'')\<lparr> m_to := Some ''D'', m_payload := Some ''X'' \<rparr>) ?s =
       sendTo (d_ws dev_D) (Relay (d_deviceId dev_M) ''X'' None) ?s"
    using p paired_state(6)
      missing_field_replies [where device = dev_M and now = 9 and t = "''D''" and p = "''X''" and target = dev_D
        and msg = "(blank ''relay'')\<lparr> m_to := Some ''D'', m_payload := Some ''X'' \<rparr>" and s = ?s]
    by (simp add: blank_def)
  have r9: "handleMessage 9 dev_D ((blank ''control-ack'')\<lparr> m_to := Some ''M'' \<rparr>) ?s =
       sendTo (d_ws dev_M) (ControlAck (d_deviceId dev_D) None) ?s"
    using paired_state(7)
      missing_field_replies [where device = dev_D and now = 9 and t = "''M''" and target = dev_M
        and msg = "(blank ''control-ack'')\<lparr> m_to := Some ''M'' \<rparr>" and s = ?s]
    by (simp add: blank_def)
  show ?thesis
    unfolding r1 r1b r2 r2b r3 r3b r4 r5 r5b r6 r7 r8 r9 snd o w(5,6) by simp
qed

text \<open>
  Claim C9, as stated, fails in three ways. On the paired run, the mobile's
  \<open>revoke-pairing\<close>, \<open>control-request\<close>, \<open>control-ack\<close> and \<open>control-revoked\<close> with the
  required field absent leave the trace of frames as it was, where a \<open>relay\<close> without
  fields adds the error frame. A \<open>relay\<close> that lacks only \<open>seq\<close> is forwarded, with no
  error. And after the desktop has reconnected, a \<open>relay\<close> without fields that arrives on
  its first socket, which the server is closing, adds nothing at all.
\<close>

theorem missing_field_silent_counterexample:
  "wire (on_message 9 1 (Some (blank ''revoke-pairing'')) (run paired_run)) = wire (run paired_run)
   \<and> wire (on_message 9 1 (Some (blank ''control-request'')) (run paired_run)) = wire (run paired_run)
   \<and> wire (on_message 9 1 (Some (blank ''control-ack'')) (run paired_run)) = wire (run paired_run)
   \<and> wire (on_message 9 1 (Some (blank ''control-revoked'')) (run paired_run)) = wire (run paired_run)
   \<and> wire (on_message 9 1 (Some (blank ''relay'')) (run paired_run)) =
       wire (run paired_run) @ [Send 1 (Error ''Missing relay target or payload'')]
   \<and> wire (on_message 9 1 (Some ((blank ''relay'')\<lparr> m_to := Some ''D'', m_payload := Some ''X'' \<rparr>))
             (run paired_run)) =
       wire (run paired_run) @ [Send 0 (Relay ''M'' ''X'' None)]
   \<and> readyState (run reconnect_run) 0 = CLOSING
   \<and> wire (on_message 9 0 (Some (blank ''relay'')) (run reconnect_run)) = wire (run reconnect_run)"
  by code_simp

subsection \<open>Control frames\<close>



subsection \<open>Unlocking the desktop\<close>





subsection \<open>Splitting a frame into IV, body and tag\<close>

lemma subarray_iv:
  "length iv = 12 \<Longrightarrow> subarray (iv @ body @ tag) 0 12 = iv"
  by (simp add: subarray_def js_index_def)

lemma subarray_tag:
  "length iv = 12 \<Longrightarrow> length tag = 16 \<Longrightarrow>
   subarray (iv @ body @ tag) (int (length (iv @ body @ tag)) - 16) (int (length (iv @ body @ tag))) = tag"
  by (simp add: subarray_def js_index_def)

lemma subarray_body:
  "length iv = 12 \<Longrightarrow> length tag = 16 \<Longrightarrow>
   subarray (iv @ body @ tag) 12 (int (length (iv @ body @ tag)) - 16) = body"
  by (simp add: subarray_def js_index_def)

lemma subarray_rest:
  "length iv = 12 \<Longrightarrow> subarray (iv @ rest) 12 (int (length (iv @ rest))) = rest"
  by (simp add: subarray_def js_index_def)

lemma noble_gcm_decrypt_split:
  "length tag = 16 \<Longrightarrow> noble_gcm_decrypt P key iv (body @ tag) = gcm_open P key iv body tag"
  by (simp add: noble_gcm_decrypt_def)

lemma decrypt_split:
  assumes "peerSeq session < n" and "b64_decode P payload = iv @ body @ tag"
    and "length iv = 12" and "length tag = 16"
  shows "decrypt P session payload n =
     (case gcm_open P (derivedKey session) iv body tag of
        None \<Rightarrow> (Inl AuthFailed, session\<lparr> peerSeq := n \<rparr>)
      | Some d \<Rightarrow> (Inr (utf8_decode P d), session\<lparr> peerSeq := n \<rparr>))"
proof -
  have "\<not> n \<le> peerSeq session" using assms(1) by simp
  then show ?thesis
    using subarray_iv [OF assms(3), of body tag] subarray_tag [OF assms(3,4), of body]
      subarray_body [OF assms(3,4), of body]
    by (simp add: decrypt_def assms(2) IV_LENGTH_def TAG_LENGTH_def Let_def del: length_append)
qed

lemma mobile_decrypt_split:
  assumes "peerSeq session < n" and "atob P payload = Some (iv @ body @ tag)"
    and "length iv = 12" and "length tag = 16"
  shows "mobile_decrypt P session payload n =
     (case gcm_open P (derivedKey session) iv body tag of
        None \<Rightarrow> (Inl AuthFailed, session\<lparr> peerSeq := n \<rparr>)
      | Some d \<Rightarrow> (Inr (utf8_decode P d), session\<lparr> peerSeq := n \<rparr>))"
proof -
  have "\<not> n \<le> peerSeq session" using assms(1) by simp
  then show ?thesis
    using subarray_iv [OF assms(3), of body tag] subarray_rest [OF assms(3), of "body @ tag"]
      noble_gcm_decrypt_split [OF assms(4), of P "derivedKey session" iv body]
    by (simp add: mobile_decrypt_def base64ToUint8_def assms(2) Let_def del: length_append)
qed


lemma decrypt_advances:
  "peerSeq session < n \<Longrightarrow> snd (decrypt P session payload n) = session\<lparr> peerSeq := n \<rparr>"
  "peerSeq session < n \<Longrightarrow> snd (mobile_decrypt P session payload n) = session\<lparr> peerSeq := n \<rparr>"
  by (simp_all add: decrypt_def mobile_decrypt_def Let_def split: option.split)

lemma decrypt_replay:
  "n \<le> peerSeq session \<Longrightarrow> decrypt P session payload n = (Inl (ReplayRejected n (peerSeq session)), session)"
  "n \<le> peerSeq session \<Longrightarrow> mobile_decrypt P session payload n = (Inl (ReplayRejected n (peerSeq session)), session)"
  by (simp_all add: decrypt_def mobile_decrypt_def)

lemma decrypt_not_replay:
  "peerSeq session < n \<Longrightarrow> fst (decrypt P session payload n) \<noteq> Inl (ReplayRejected a b)"
  "peerSeq session < n \<Longrightarrow> fst (mobile_decrypt P session payload n) \<noteq> Inl (ReplayRejected a b)"
  by (simp_all add: decrypt_def mobile_decrypt_def Let_def split: option.split)

text \<open>
  Claim C1, as amended. On the desktop and on the mobile alike, \<open>decrypt\<close> fails with the
  replay error exactly when \<open>seq \<le> peerSeq\<close>, and then the session is untouched.
  Otherwise \<open>peerSeq\<close> is set to \<open>seq\<close> before anything is decoded, so the session
  returned has \<open>peerSeq = seq\<close> whether or not the tag verifies. When the decoded payload
  is a 12-byte IV, a body and a 16-byte tag, the result is the UTF-8 decoding of what GCM
  returns for these three parts under the session key, or the authentication failure when
  GCM rejects them.
\<close>

theorem decrypt_checks_replay_then_advances:
  "(fst (decrypt P session payload n) = Inl (ReplayRejected n (peerSeq session)) \<longleftrightarrow> n \<le> peerSeq session)
   \<and> (n \<le> peerSeq session \<longrightarrow> snd (decrypt P session payload n) = session)
   \<and> (peerSeq session < n \<longrightarrow> snd (decrypt P session payload n) = session\<lparr> peerSeq := n \<rparr>)
   \<and> (peerSeq session < n \<and> b64_decode P payload = iv @ body @ tag \<and> length iv = 12 \<and> length tag = 16 \<longrightarrow>
        fst (decrypt P session payload n) =
          (case gcm_open P (derivedKey session) iv body tag of
             None \<Rightarrow> Inl AuthFailed | Some d \<Rightarrow> Inr (utf8_decode P d)))
   \<and> (fst (mobile_decrypt P session payload n) = Inl (ReplayRejected n (peerSeq session)) \<longleftrightarrow> n \<le> peerSeq session)
   \<and> (n \<le> peerSeq session \<longrightarrow> snd (mobile_decrypt P session payload n) = session)
   \<and> (peerSeq session < n \<longrightarrow> snd (mobile_decrypt P session payload n) = session\<lparr> peerSeq := n \<rparr>)
   \<and> (peerSeq session < n \<and> atob P payload = Some (iv @ body @ tag) \<and> length iv = 12 \<and> length tag = 16 \<longrightarrow>
        fst (mobile_decrypt P session payload n) =
          (case gcm_open P (derivedKey session) iv body tag of
             None \<Rightarrow> Inl AuthFailed | Some d \<Rightarrow> Inr (utf8_decode P d)))"
proof -
  have r1: "fst (decrypt P session payload n) = Inl (ReplayRejected n (peerSeq session)) \<longleftrightarrow> n \<le> peerSeq session"
    using decrypt_replay(1) [of n session P payload] decrypt_not_replay(1) [of session n P payload]
    by (cases "n \<le> peerSeq session") simp_all
  have r2: "fst (mobile_decrypt P session payload n) = Inl (ReplayRejected n (peerSeq session)) \<longleftrightarrow> n \<le> peerSeq session"
    using decrypt_replay(2) [of n session P payload] decrypt_not_replay(2) [of session n P payload]
    by (cases "n \<le> peerSeq session") simp_all
  have s1: "peerSeq session < n \<and> b64_decode P payload = iv @ body @ tag \<and> length iv = 12 \<and> length tag = 16 \<longrightarrow>
        fst (decrypt P session payload n) =
          (case gcm_open P (derivedKey session) iv body tag of
             None \<Rightarrow> Inl AuthFailed | Some d \<Rightarrow> Inr (utf8_decode P d))"
    by (auto simp add: decrypt_split split: option.split)
  have s2: "peerSeq session < n \<and> atob P payload = Some (iv @ body @ tag) \<and> length iv = 12 \<and> length tag = 16 \<longrightarrow>
        fst (mobile_decrypt P session payload n) =
          (case gcm_open P (derivedKey session) iv body tag of
             None \<Rightarrow> Inl AuthFailed | Some d \<Rightarrow> Inr (utf8_decode P d))"
    by (auto simp add: mobile_decrypt_split split: option.split)
  show ?thesis
    using r1 r2 s1 s2 decrypt_advances [of session n P payload] decrypt_replay [of n session P payload]
    by simp
qed

lemma byte_of_unat_mod: "word_of_nat (unat (a :: byte) mod 256) = a"
proof -
  have "unat a < 256" using unsigned_less [of a, where ?'a = nat] by simp
  then show ?thesis by simp
qed

lemma demo_bytes_chars:
  "map (\<lambda>c. of_nat (of_char c)) (map (\<lambda>b. char_of (unat b)) (bs :: bytes)) = bs"
  by (induction bs) (simp_all add: byte_of_unat_mod)

lemma demo_chars_bytes:
  "map (\<lambda>b. char_of (unat b)) (map (\<lambda>c. of_nat (of_char c) :: byte) s) = s"
proof (induction s)
  case Nil
  then show ?case by simp
next
  case (Cons c s)
  have "(of_char c :: nat) < 256" by simp
  then have "unat (word_of_nat (of_char c) :: byte) = of_char c"
    by (simp add: unat_of_nat)
  with Cons show ?case by simp
qed


theorem decrypt_checks_replay_then_advances_witness:
  "peerSeq demo_session < 0
   \<and> b64_decode demo_platform forged_payload = replicate 12 0 @ [5] @ replicate 16 0
   \<and> atob demo_platform forged_payload = Some (replicate 12 0 @ [5] @ replicate 16 0)
   \<and> fst (decrypt demo_platform demo_session forged_payload 0) = Inl AuthFailed
   \<and> snd (decrypt demo_platform demo_session forged_payload 0) = demo_session\<lparr> peerSeq := 0 \<rparr>
   \<and> fst (mobile_decrypt demo_platform demo_session forged_payload 0) = Inl AuthFailed
   \<and> snd (mobile_decrypt demo_platform demo_session forged_payload 0) = demo_session\<lparr> peerSeq := 0 \<rparr>
   \<and> fst (decrypt demo_platform demo_session genuine_payload 0) = Inr ''hi''
   \<and> snd (decrypt demo_platform demo_session genuine_payload 0) = demo_session\<lparr> peerSeq := 0 \<rparr>
   \<and> fst (mobile_decrypt demo_platform demo_session genuine_payload 0) = Inr ''hi''
   \<and> fst (decrypt demo_platform (demo_session\<lparr> peerSeq := 0 \<rparr>) genuine_payload 0) = Inl (ReplayRejected 0 0)
   \<and> snd (decrypt demo_platform (demo_session\<lparr> peerSeq := 0 \<rparr>) genuine_payload 0) = demo_session\<lparr> peerSeq := 0 \<rparr>
   \<and> fst (mobile_decrypt demo_platform (demo_session\<lparr> peerSeq := 0 \<rparr>) genuine_payload 0) = Inl (ReplayRejected 0 0)
   \<and> snd (mobile_decrypt demo_platform (demo_session\<lparr> peerSeq := 0 \<rparr>) genuine_payload 0) = demo_session\<lparr> peerSeq := 0 \<rparr>"
proof -
  let ?iv = "replicate 12 0 :: bytes" and ?body = "[5] :: bytes" and ?tag = "replicate 16 0 :: bytes"
  let ?gbody = "[105, 106] :: bytes" and ?gtag = "replicate 16 7 :: bytes"
  have p: "peerSeq demo_session < 0" "peerSeq (demo_session\<lparr> peerSeq := 0 \<rparr>) = 0"
    by (simp_all add: demo_session_def)
  have d: "b64_decode demo_platform forged_payload = ?iv @ ?body @ ?tag"
    "atob demo_platform forged_payload = Some (?iv @ ?body @ ?tag)"
    unfolding forged_payload_def by (simp_all add: demo_platform_def demo_bytes_chars)
  have e: "b64_decode demo_platform genuine_payload = demo_iv @ ?gbody @ ?gtag"
    "atob demo_platform genuine_payload = Some (demo_iv @ ?gbody @ ?gtag)"
    by code_simp+
  have l: "length ?iv = 12" "length ?tag = 16" "length demo_iv = 12" "length ?gtag = 16"
    by (simp_all add: demo_iv_def)
  have g: "gcm_open demo_platform (derivedKey demo_session) ?iv ?body ?tag = None"
    by (simp add: demo_platform_def demo_session_def)
  have h: "gcm_open demo_platform (derivedKey demo_session) demo_iv ?gbody ?gtag = Some [104, 105]"
    "utf8_decode demo_platform [104, 105] = ''hi''"
    by code_simp+
  note t = decrypt_checks_replay_then_advances [of demo_platform demo_session forged_payload 0 ?iv ?body ?tag]
  note u = decrypt_checks_replay_then_advances [of demo_platform demo_session genuine_payload 0 demo_iv ?gbody ?gtag]
  note v = decrypt_checks_replay_then_advances
    [of demo_platform "demo_session\<lparr> peerSeq := 0 \<rparr>" genuine_payload 0 demo_iv ?gbody ?gtag]
  have 1: "fst (decrypt demo_platform demo_session forged_payload 0) = Inl AuthFailed"
    "fst (mobile_decrypt demo_platform demo_session forged_payload 0) = Inl AuthFailed"
    using t p(1) d l g by simp_all
  have 2: "snd (decrypt demo_platform demo_session forged_payload 0) = demo_session\<lparr> peerSeq := 0 \<rparr>"
    "snd (mobile_decrypt demo_platform demo_session forged_payload 0) = demo_session\<lparr> peerSeq := 0 \<rparr>"
    using t p(1) by simp_all
  have 3: "fst (decrypt demo_platform demo_session genuine_payload 0) = Inr ''hi''"
    "fst (mobile_decrypt demo_platform demo_session genuine_payload 0) = Inr ''hi''"
    using u p(1) e l h by simp_all
  have 4: "snd (decrypt demo_platform demo_session genuine_payload 0) = demo_session\<lparr> peerSeq := 0 \<rparr>"
    using u p(1) by simp
  have 5: "fst (decrypt demo_platform (demo_session\<lparr> peerSeq := 0 \<rparr>) genuine_payload 0) = Inl (ReplayRejected 0 0)"
    "snd (decrypt demo_platform (demo_session\<lparr> peerSeq := 0 \<rparr>) genuine_payload 0) = demo_session\<lparr> peerSeq := 0 \<rparr>"
    "fst (mobile_decrypt demo_platform (demo_session\<lparr> peerSeq := 0 \<rparr>) genuine_payload 0) = Inl (ReplayRejected 0 0)"
    "snd (mobile_decrypt demo_platform (demo_session\<lparr> peerSeq := 0 \<rparr>) genuine_payload 0) = demo_session\<lparr> peerSeq := 0 \<rparr>"
    using v p(2) by simp_all
  show ?thesis
    using p(1) d 1 2 3 4 5 by simp
qed

text \<open>
  Claim C1, as stated, fails where it says that a tag failure leaves \<open>lastInboundSeq\<close>
  unchanged: the frame with a bad tag and \<open>seq = 0\<close> is refused with the authentication
  failure, and the session that had \<open>peerSeq = -1\<close> has \<open>peerSeq = 0\<close> afterwards.
\<close>

theorem decrypt_advances_on_auth_failure_counterexample:
  "fst (decrypt demo_platform demo_session forged_payload 0) = Inl AuthFailed
   \<and> peerSeq (snd (decrypt demo_platform demo_session forged_payload 0)) = 0
   \<and> peerSeq demo_session = - 1
   \<and> fst (mobile_decrypt demo_platform demo_session forged_payload 0) = Inl AuthFailed
   \<and> peerSeq (snd (mobile_decrypt demo_platform demo_session forged_payload 0)) = 0"
  by code_simp

subsection \<open>Encrypting on one side, decrypting on the other\<close>

lemma mobile_encrypt_eq: "mobile_encrypt P iv session m = encrypt P iv session m"
  by (simp add: mobile_encrypt_def encrypt_def noble_gcm_encrypt_def uint8ToBase64_def Let_def
        split: prod.split)

lemma encrypt_seq:
  "snd (fst (encrypt P iv session m)) = seq session"
  "seq (snd (encrypt P iv session m)) = js_increment (seq session)"
  by (simp_all add: encrypt_def Let_def split: prod.split)

text \<open>
  In the range where a double holds every integer the counter moves by one; at \<open>2^53\<close> it
  stays, since \<open>2^53 + 1\<close> is not a double and the tie goes to \<open>2^53\<close>.
\<close>

lemma js_increment_exact: "- (2 ^ 53) \<le> x \<Longrightarrow> x < 2 ^ 53 \<Longrightarrow> js_increment x = x + 1"
  by (simp add: js_increment_def)

lemma js_increment_sticks: "js_increment (2 ^ 53) = 2 ^ 53"
  by (simp add: js_increment_def)

lemma encrypt_payload:
  "fst (fst (encrypt P iv session m)) =
     b64_encode P (iv @ fst (gcm_seal P (derivedKey session) iv (utf8_encode P m))
                      @ snd (gcm_seal P (derivedKey session) iv (utf8_encode P m)))"
  by (simp add: encrypt_def Let_def split: prod.split)

lemma deriveSession_counters:
  "deriveSession P C ecdh pub code = Some ds \<Longrightarrow> seq ds = 0 \<and> peerSeq ds = - 1"
  "mobile_deriveSession P C priv pub code = Some ms \<Longrightarrow> seq ms = 0 \<and> peerSeq ms = - 1"
  by (auto simp add: deriveSession_def mobile_deriveSession_def Let_def split: option.splits)

lemma encrypt_all_seqs:
  "0 \<le> seq session \<Longrightarrow> seq session + int (length ims) \<le> 2 ^ 53 \<Longrightarrow>
   map snd (fst (encrypt_all P ims session)) = map (\<lambda>i. seq session + int i) [0..<length ims]
   \<and> seq (snd (encrypt_all P ims session)) = seq session + int (length ims)"
proof (induction ims arbitrary: session)
  case Nil
  then show ?case by simp
next
  case (Cons im ims)
  obtain iv m where im: "im = (iv, m)" by (cases im)
  let ?s1 = "snd (encrypt P iv session m)"
  have s1: "seq ?s1 = seq session + 1"
    using Cons.prems by (simp add: encrypt_seq js_increment_exact)
  have ih: "map snd (fst (encrypt_all P ims ?s1)) = map (\<lambda>i. seq ?s1 + int i) [0..<length ims]
      \<and> seq (snd (encrypt_all P ims ?s1)) = seq ?s1 + int (length ims)"
    using Cons.prems by (intro Cons.IH) (simp_all add: s1)
  have "[0..<Suc (length ims)] = 0 # [Suc 0..<Suc (length ims)]"
    by (rule upt_conv_Cons) simp
  then have u: "[0..<length (im # ims)] = 0 # map Suc [0..<length ims]"
    by (simp only: length_Cons map_Suc_upt)
  have step: "encrypt_all P (im # ims) session =
      (fst (encrypt P iv session m) # fst (encrypt_all P ims ?s1), snd (encrypt_all P ims ?s1))"
    by (simp add: im case_prod_beta)
  have "map (\<lambda>i. seq session + int i) (map Suc [0..<length ims]) =
      map (\<lambda>i. seq ?s1 + int i) [0..<length ims]"
    by (simp add: s1)
  then show ?case
    unfolding step u using ih s1 by (simp add: encrypt_seq)
qed

text \<open>
  Claim C4. Two sessions hold the same derived key, and the platform's primitives are
  inverse to each other on this message (GCM opens what it sealed under this key and IV
  and its tag has 16 bytes; base64 and UTF-8 decode what they encoded). Then a message
  encrypted on either side is returned by \<open>decrypt\<close> on either side, provided its sequence
  number exceeds the receiver's \<open>peerSeq\<close>, which becomes that number. Both sides build the
  same frame. \<open>encrypt\<close> emits the current \<open>seq\<close> and then increments it with \<open>seq++\<close>: by one
  as long as the counter is below \<open>2^53\<close>. The first number after \<open>deriveSession\<close> is 0 and
  the counter is 1 after it, and a sender that starts from 0 emits \<open>0, 1, 2, ...\<close> in order,
  for any number of messages up to \<open>2^53\<close>.
\<close>

theorem encrypt_decrypt_roundtrip:
  fixes session :: "'a E2EESession_scheme" and peer :: "'b E2EESession_scheme"
    and start :: "'c E2EESession_scheme"
  assumes key: "derivedKey peer = derivedKey session"
    and fresh: "peerSeq peer < seq session"
    and iv: "length iv = 12"
    and gcm: "gcm_open P (derivedKey session) iv
                (fst (gcm_seal P (derivedKey session) iv (utf8_encode P m)))
                (snd (gcm_seal P (derivedKey session) iv (utf8_encode P m))) = Some (utf8_encode P m)"
    and tag: "length (snd (gcm_seal P (derivedKey session) iv (utf8_encode P m))) = 16"
    and b64: "\<And>bs. b64_decode P (b64_encode P bs) = bs"
    and atob: "\<And>bs. atob P (b64_encode P bs) = Some bs"
    and utf8: "utf8_decode P (utf8_encode P m) = m"
  shows "snd (fst (encrypt P iv session m)) = seq session
       \<and> seq (snd (encrypt P iv session m)) = js_increment (seq session)
       \<and> (- (2 ^ 53) \<le> seq session \<and> seq session < 2 ^ 53 \<longrightarrow>
            seq (snd (encrypt P iv session m)) = seq session + 1)
       \<and> mobile_encrypt P iv session m = encrypt P iv session m
       \<and> decrypt P peer (fst (fst (encrypt P iv session m))) (snd (fst (encrypt P iv session m))) =
           (Inr m, peer\<lparr> peerSeq := seq session \<rparr>)
       \<and> mobile_decrypt P peer (fst (fst (encrypt P iv session m))) (snd (fst (encrypt P iv session m))) =
           (Inr m, peer\<lparr> peerSeq := seq session \<rparr>)
       \<and> (deriveSession P C ecdh pub code = Some ds \<longrightarrow>
            snd (fst (encrypt P iv' ds m')) = 0 \<and> seq (snd (encrypt P iv' ds m')) = 1)
       \<and> (mobile_deriveSession P C priv pub' code' = Some ms \<longrightarrow>
            snd (fst (mobile_encrypt P iv' ms m')) = 0 \<and> seq (snd (mobile_encrypt P iv' ms m')) = 1)
       \<and> (seq start = 0 \<and> int (length ims) \<le> 2 ^ 53 \<longrightarrow>
            map snd (fst (encrypt_all P ims start)) = map int [0..<length ims]
          \<and> seq (snd (encrypt_all P ims start)) = int (length ims))"
proof -
  let ?c = "fst (gcm_seal P (derivedKey session) iv (utf8_encode P m))"
  let ?t = "snd (gcm_seal P (derivedKey session) iv (utf8_encode P m))"
  have d: "b64_decode P (fst (fst (encrypt P iv session m))) = iv @ ?c @ ?t"
    "atob P (fst (fst (encrypt P iv session m))) = Some (iv @ ?c @ ?t)"
    by (simp_all add: encrypt_payload b64 atob)
  have 1: "decrypt P peer (fst (fst (encrypt P iv session m))) (seq session) =
           (Inr m, peer\<lparr> peerSeq := seq session \<rparr>)"
    using decrypt_split [OF fresh d(1) iv tag] gcm utf8 by (simp add: key)
  have 2: "mobile_decrypt P peer (fst (fst (encrypt P iv session m))) (seq session) =
           (Inr m, peer\<lparr> peerSeq := seq session \<rparr>)"
    using mobile_decrypt_split [OF fresh d(2) iv tag] gcm utf8 by (simp add: key)
  have 3: "seq start = 0 \<and> int (length ims) \<le> 2 ^ 53 \<longrightarrow>
            map snd (fst (encrypt_all P ims start)) = map int [0..<length ims]
          \<and> seq (snd (encrypt_all P ims start)) = int (length ims)"
    using encrypt_all_seqs [of start ims P] by simp
  have 4: "js_increment 0 = 1"
    by (simp add: js_increment_def)
  show ?thesis
    using 1 2 3 4 deriveSession_counters [of P C]
    by (simp add: encrypt_seq mobile_encrypt_eq js_increment_exact)
qed

lemma demo_sessions:
  "derivedKey demo_mobile_session = derivedKey demo_desktop_session"
  "peerSeq demo_mobile_session = - 1" "seq demo_desktop_session = 0"
  "peerSeq demo_desktop_session = - 1" "seq demo_mobile_session = 0"
  "deriveSession demo_platform demo_curve 3 (fst (mobile_generateKeyPair demo_curve 5)) ''code''
     = Some demo_desktop_session"
  "mobile_deriveSession demo_platform demo_curve 5 (fst (generateKeyPair demo_curve 3)) ''code''
     = Some demo_mobile_session"
  by code_simp+


lemma unat_byte_of_char: "unat (word_of_nat (of_char c) :: byte) = of_char c"
proof -
  have "(of_char c :: nat) < 256" by simp
  then show ?thesis by (simp add: unat_of_nat)
qed

lemma demo_platform_inverse:
  "gcm_open demo_platform k iv (fst (gcm_seal demo_platform k iv bs)) (snd (gcm_seal demo_platform k iv bs)) = Some bs"
  "length (snd (gcm_seal demo_platform k iv bs)) = 16"
  "b64_decode demo_platform (b64_encode demo_platform bs) = bs"
  "atob demo_platform (b64_encode demo_platform bs) = Some bs"
  "utf8_decode demo_platform (utf8_encode demo_platform s) = s"
  by (simp_all add: demo_platform_def byte_of_unat_mod unat_byte_of_char comp_def)

theorem encrypt_decrypt_roundtrip_witness:
  "derivedKey demo_mobile_session = derivedKey demo_desktop_session
   \<and> peerSeq demo_mobile_session < seq demo_desktop_session
   \<and> snd (fst (encrypt demo_platform demo_iv demo_desktop_session ''hello'')) = 0
   \<and> seq (snd (encrypt demo_platform demo_iv demo_desktop_session ''hello'')) = 1
   \<and> mobile_decrypt demo_platform demo_mobile_session
        (fst (fst (encrypt demo_platform demo_iv demo_desktop_session ''hello''))) 0 =
        (Inr ''hello'', demo_mobile_session\<lparr> peerSeq := 0 \<rparr>)
   \<and> decrypt demo_platform demo_desktop_session
        (fst (fst (mobile_encrypt demo_platform demo_iv demo_mobile_session ''hello''))) 0 =
        (Inr ''hello'', demo_desktop_session\<lparr> peerSeq := 0 \<rparr>)
   \<and> map snd (fst (encrypt_all demo_platform
        [(demo_iv, ''a''), (demo_iv, ''b''), (demo_iv, ''c'')] demo_desktop_session)) = [0, 1, 2]
   \<and> seq (snd (encrypt_all demo_platform
        [(demo_iv, ''a''), (demo_iv, ''b''), (demo_iv, ''c'')] demo_desktop_session)) = 3"
proof -
  let ?ims = "[(demo_iv, ''a''), (demo_iv, ''b''), (demo_iv, ''c'')]"
  have f: "peerSeq demo_mobile_session < seq demo_desktop_session"
    "peerSeq demo_desktop_session < seq demo_mobile_session"
    by (simp_all add: demo_sessions)
  have l: "length demo_iv = 12"
    by (simp add: demo_iv_def)
  note a = encrypt_decrypt_roundtrip [where P = demo_platform and iv = demo_iv and m = "''hello''"
      and session = demo_desktop_session and peer = demo_mobile_session
      and C = demo_curve and ecdh = 3 and pub = "fst (mobile_generateKeyPair demo_curve 5)"
      and code = "''code''" and ds = demo_desktop_session and iv' = demo_iv and m' = "''hello''"
      and priv = 5 and pub' = "fst (generateKeyPair demo_curve 3)" and code' = "''code''"
      and ms = demo_mobile_session and start = demo_desktop_session and ims = ?ims,
      OF demo_sessions(1) f(1) l demo_platform_inverse]
  note b = encrypt_decrypt_roundtrip [where P = demo_platform and iv = demo_iv and m = "''hello''"
      and session = demo_mobile_session and peer = demo_desktop_session
      and C = demo_curve and ecdh = 3 and pub = "fst (mobile_generateKeyPair demo_curve 5)"
      and code = "''code''" and ds = demo_desktop_session and iv' = demo_iv and m' = "''hello''"
      and priv = 5 and pub' = "fst (generateKeyPair demo_curve 3)" and code' = "''code''"
      and ms = demo_mobile_session and start = demo_desktop_session and ims = ?ims,
      OF demo_sessions(1) [symmetric] f(2) l demo_platform_inverse]
  have n: "snd (fst (encrypt demo_platform demo_iv demo_desktop_session ''hello'')) = 0"
    "seq (snd (encrypt demo_platform demo_iv demo_desktop_session ''hello'')) = 1"
    "snd (fst (encrypt demo_platform demo_iv demo_mobile_session ''hello'')) = 0"
    using a b by (simp_all add: demo_sessions)
  have e: "mobile_encrypt demo_platform demo_iv demo_mobile_session ''hello'' =
      encrypt demo_platform demo_iv demo_mobile_session ''hello''"
    using b by blast
  have 1: "mobile_decrypt demo_platform demo_mobile_session
        (fst (fst (encrypt demo_platform demo_iv demo_desktop_session ''hello'')))
        (snd (fst (encrypt demo_platform demo_iv demo_desktop_session ''hello''))) =
        (Inr ''hello'', demo_mobile_session\<lparr> peerSeq := seq demo_desktop_session \<rparr>)"
    using a by blast
  have 2: "decrypt demo_platform demo_desktop_session
        (fst (fst (encrypt demo_platform demo_iv demo_mobile_session ''hello'')))
        (snd (fst (encrypt demo_platform demo_iv demo_mobile_session ''hello''))) =
        (Inr ''hello'', demo_desktop_session\<lparr> peerSeq := seq demo_mobile_session \<rparr>)"
    using b by blast
  have 3: "map snd (fst (encrypt_all demo_platform ?ims demo_desktop_session)) = map int [0..<length ?ims]"
    "seq (snd (encrypt_all demo_platform ?ims demo_desktop_session)) = int (length ?ims)"
    using a by (simp_all add: demo_sessions)
  have u: "map int [0..<length ?ims] = [0, 1, 2]" "int (length ?ims) = 3"
    by (simp_all add: upt_rec)
  show ?thesis
    using 1 2 f(1) unfolding e n 3 u by (simp add: demo_sessions)
qed

subsection \<open>Hex encoding and decoding\<close>

lemma hex_digit_0: "hex_digit 0 = CHR ''0''"
  by (simp add: hex_digit_def)

lemma padStart2_byte:
  "padStart2 (byte_toString16 b) = [hex_digit (unat b div 16), hex_digit (unat b mod 16)]"
  by (simp add: padStart2_def byte_toString16_def hex_digit_0)

lemma byte_of_nibbles: "word_of_int (int (16 * (unat b div 16) + unat b mod 16)) = (b :: byte)"
  by simp

lemma nibbles_less: "unat (b :: byte) div 16 < 16" "unat b mod 16 < 16"
proof -
  have "unat b < 256" using unsigned_less [of b, where ?'a = nat] by simp
  then show "unat b div 16 < 16" by simp
  show "unat b mod 16 < 16" by simp
qed

lemma hex_pairs_bytesToHex:
  assumes "\<And>hi lo. hi < 16 \<Longrightarrow> lo < 16 \<Longrightarrow>
             parseInt16 P [hex_digit hi, hex_digit lo] = Some (int (16 * hi + lo))"
  shows "hex_pairs P (bytesToHex bs) = bs"
proof (induction bs)
  case Nil
  then show ?case by (simp add: bytesToHex_def)
next
  case (Cons b bs)
  have "bytesToHex (b # bs) = hex_digit (unat b div 16) # hex_digit (unat b mod 16) # bytesToHex bs"
    by (simp add: bytesToHex_def padStart2_byte)
  moreover have "to_uint8 (parseInt16 P [hex_digit (unat b div 16), hex_digit (unat b mod 16)]) = b"
    using assms [OF nibbles_less, of b b] byte_of_nibbles [of b] by simp
  ultimately show ?case
    using Cons by simp
qed

lemma hexToBytes_bytesToHex:
  assumes "\<And>hi lo. hi < 16 \<Longrightarrow> lo < 16 \<Longrightarrow>
             parseInt16 P [hex_digit hi, hex_digit lo] = Some (int (16 * hi + lo))"
  shows "hexToBytes P (bytesToHex bs) = bs"
  using hex_pairs_bytesToHex [OF assms] by (simp add: hexToBytes_def)

subsection \<open>One block of HKDF\<close>

lemma buf_copy_whole: "length src = length target \<Longrightarrow> buf_copy src target 0 = src"
  by (simp add: buf_copy_def)

lemma hkdfSha256_32:
  assumes "\<And>k m. length (hmac_sha256 P k m) = 32"
  shows "hkdfSha256 P ikm salt info 32 = hmac_sha256 P (hmac_sha256 P salt ikm) (info @ [1])"
proof -
  have n: "(32 + 31) div 32 = (1::nat)" by simp
  have u: "[0..<1] = [0::nat]" by simp
  show ?thesis
    unfolding hkdfSha256_def Let_def n u
    by (simp add: buf_copy_whole assms subarray_def js_index_def Let_def)
qed

lemma noble_hkdf_32:
  assumes "\<And>k m. length (hmac_sha256 P k m) = 32"
  shows "noble_hkdf P ikm salt info 32 = hmac_sha256 P (hmac_sha256 P salt ikm) (info @ [1])"
proof -
  have n: "(32 + 31) div 32 = (1::nat)" by simp
  have u: "[1..<Suc 1] = [Suc 0]" by simp
  show ?thesis
    unfolding noble_hkdf_def Let_def n u
    by (simp add: assms)
qed

text \<open>
  \<open>slice(1, 33)\<close> is the X coordinate of the shared point, in the compressed form that
  \<open>getSharedSecret\<close> returns and in the uncompressed form alike.
\<close>

lemma compressed_x:
  "length (x_bytes C Q) = 32 \<Longrightarrow> subarray (compressed C Q) 1 33 = x_bytes C Q"
  by (simp add: compressed_def subarray_def js_index_def)

lemma uncompressed_x:
  "length (x_bytes C Q) = 32 \<Longrightarrow> subarray (uncompressed C Q) 1 33 = x_bytes C Q"
  by (simp add: uncompressed_def subarray_def js_index_def)


text \<open>
  Claim C5. The curve and the platform are parameters with the properties the real ones
  have: the two scalar multiplications commute on the base point, the point parser
  inverts the uncompressed encoding, an X coordinate has 32 bytes, HMAC-SHA256 returns 32
  bytes, Node's hex decoder inverts the lowercase hex encoding, and \<open>parseInt\<close> reads two
  hex digits. Then the desktop's \<open>deriveSession\<close>, fed the mobile's public key, and the
  mobile's \<open>deriveSession\<close>, fed the desktop's public key, both succeed for the same pairing
  code and return the same 32-byte derived key.
\<close>

theorem deriveSession_keys_agree:
  fixes P :: platform and C :: "'pt curve"
  assumes comm: "smul C dpriv (smul C mpriv (base C)) = smul C mpriv (smul C dpriv (base C))"
    and parse: "\<And>Q. point_of C (uncompressed C Q) = Some Q"
    and xlen: "\<And>Q. length (x_bytes C Q) = 32"
    and hlen: "\<And>k m. length (hmac_sha256 P k m) = 32"
    and node_hex: "\<And>bs. Buffer_from_hex P (bytesToHex bs) = bs"
    and parse_int: "\<And>hi lo. hi < 16 \<Longrightarrow> lo < 16 \<Longrightarrow>
                      parseInt16 P [hex_digit hi, hex_digit lo] = Some (int (16 * hi + lo))"
  shows "\<exists>sd sm.
           deriveSession P C dpriv (fst (mobile_generateKeyPair C mpriv)) code = Some sd
         \<and> mobile_deriveSession P C mpriv (fst (generateKeyPair C dpriv)) code = Some sm
         \<and> derivedKey sd = derivedKey sm
         \<and> length (derivedKey sd) = 32
         \<and> seq sd = 0 \<and> peerSeq sd = - 1 \<and> seq sm = 0 \<and> peerSeq sm = - 1"
proof -
  let ?X = "x_bytes C (smul C dpriv (smul C mpriv (base C)))"
  let ?key = "hmac_sha256 P (hmac_sha256 P (utf8_encode P code) ?X)
                (utf8_encode P ''claude-studio-e2ee'' @ [1])"
  have d: "node_computeSecret C dpriv (Buffer_from_hex P (fst (mobile_generateKeyPair C mpriv))) = Some ?X"
    by (simp add: node_computeSecret_def mobile_generateKeyPair_def noble_getPublicKey_def node_hex parse)
  have m1: "hexToBytes P (fst (generateKeyPair C dpriv)) = uncompressed C (smul C dpriv (base C))"
    by (simp add: generateKeyPair_def node_getPublicKey_hex_def hexToBytes_bytesToHex [OF parse_int])
  have m2: "noble_getSharedSecret C mpriv (uncompressed C (smul C dpriv (base C))) =
              Some (compressed C (smul C dpriv (smul C mpriv (base C))))"
    by (simp add: noble_getSharedSecret_def parse comm)
  have m3: "subarray (compressed C (smul C dpriv (smul C mpriv (base C)))) 1 33 = ?X"
    by (rule compressed_x) (rule xlen)
  have sd: "deriveSession P C dpriv (fst (mobile_generateKeyPair C mpriv)) code =
              Some \<lparr> derivedKey = ?key, seq = 0, peerSeq = - 1, sharedSecret = ?X \<rparr>"
    by (simp add: deriveSession_def d hkdfSha256_32 [OF hlen])
  have sm: "mobile_deriveSession P C mpriv (fst (generateKeyPair C dpriv)) code =
              Some \<lparr> derivedKey = ?key, seq = 0, peerSeq = - 1 \<rparr>"
    by (simp add: mobile_deriveSession_def Let_def m1 m2 m3 noble_hkdf_32 [OF hlen])
  show ?thesis
    unfolding sd sm by (simp add: hlen)
qed


lemma hex_val_hex_digit: "n < 16 \<Longrightarrow> hex_val (hex_digit n) = n"
proof -
  have "list_all (\<lambda>k. hex_val (hex_digit k) = k) [0..<16]"
    by code_simp
  moreover assume "n < 16"
  ultimately show ?thesis
    by (simp add: list_all_iff)
qed

lemma demo_parseInt16_digits:
  "hi < 16 \<Longrightarrow> lo < 16 \<Longrightarrow>
   parseInt16 demo_platform [hex_digit hi, hex_digit lo] = Some (int (16 * hi + lo))"
  by (simp add: demo_platform_def demo_parseInt16_def hex_val_hex_digit)

lemma demo_hex_decode_bytesToHex: "Buffer_from_hex demo_platform (bytesToHex bs) = bs"
proof -
  have "demo_hex_decode (bytesToHex bs) = bs"
  proof (induction bs)
    case Nil
    then show ?case by (simp add: bytesToHex_def)
  next
    case (Cons b bs)
    have "bytesToHex (b # bs) = hex_digit (unat b div 16) # hex_digit (unat b mod 16) # bytesToHex bs"
      by (simp add: bytesToHex_def padStart2_byte)
    moreover have "word_of_nat (16 * (unat b div 16) + unat b mod 16) = b"
      by simp
    ultimately show ?case
      using Cons by (simp add: hex_val_hex_digit nibbles_less)
  qed
  then show ?thesis by (simp add: demo_platform_def)
qed

lemma demo_curve_properties:
  "smul demo_curve a (smul demo_curve b (base demo_curve)) = smul demo_curve b (smul demo_curve a (base demo_curve))"
  "point_of demo_curve (uncompressed demo_curve Q) = Some Q"
  "length (x_bytes demo_curve Q) = 32"
  by (simp_all add: demo_curve_def uncompressed_def nth_append mult.commute)

lemma demo_hmac_length: "length (hmac_sha256 demo_platform k m) = 32"
  by (simp add: demo_platform_def)

theorem deriveSession_keys_agree_witness:
  "deriveSession demo_platform demo_curve 3 (fst (mobile_generateKeyPair demo_curve 5)) ''code''
     = Some demo_desktop_session
   \<and> mobile_deriveSession demo_platform demo_curve 5 (fst (generateKeyPair demo_curve 3)) ''code''
     = Some demo_mobile_session
   \<and> derivedKey demo_desktop_session = derivedKey demo_mobile_session
   \<and> length (derivedKey demo_desktop_session) = 32"
proof -
  obtain sd sm where
    sd: "deriveSession demo_platform demo_curve 3 (fst (mobile_generateKeyPair demo_curve 5)) ''code'' = Some sd"
    and sm: "mobile_deriveSession demo_platform demo_curve 5 (fst (generateKeyPair demo_curve 3)) ''code'' = Some sm"
    and eq: "derivedKey sd = derivedKey sm" and len: "length (derivedKey sd) = 32"
    using deriveSession_keys_agree [of demo_curve 3 5 demo_platform "''code''",
        OF demo_curve_properties demo_hmac_length demo_hex_decode_bytesToHex demo_parseInt16_digits]
    by blast
  have "demo_desktop_session = sd" "demo_mobile_session = sm"
    by (simp_all add: demo_desktop_session_def demo_mobile_session_def sd sm)
  then show ?thesis
    using sd sm eq len by simp
qed

end
